theory Spec2Isabelle
  imports Complex_Main "HOL-Library.Word"
begin

section \<open>JavaScript strings\<close>

text \<open>
  A JavaScript string is a sequence of 16-bit code units. \<open>lit\<close> is the string of a
  literal of the source, all of which are ASCII, and \<open>cu\<close> the code unit of one
  character.
\<close>

type_synonym jstring = "16 word list"

definition lit :: "string \<Rightarrow> jstring" where
  "lit s = map of_char s"

definition cu :: "char \<Rightarrow> 16 word" where
  "cu c = of_char c"

text \<open>
  The code units that \<open>String.prototype.trim\<close> strips and that \<open>parseFloat\<close> skips:
  white space and line terminators.
\<close>

definition is_ws :: "16 word \<Rightarrow> bool" where
  "is_ws c = (c \<in> set [0x0009, 0x000A, 0x000B, 0x000C, 0x000D, 0x0020, 0x00A0, 0x1680,
      0x2000, 0x2001, 0x2002, 0x2003, 0x2004, 0x2005, 0x2006, 0x2007, 0x2008, 0x2009, 0x200A,
      0x2028, 0x2029, 0x202F, 0x205F, 0x3000, 0xFEFF])"

definition trim :: "jstring \<Rightarrow> jstring" where
  "trim s = rev (dropWhile is_ws (rev (dropWhile is_ws s)))"

text \<open>\<open>Array.prototype.join\<close> on an array of strings.\<close>

fun join :: "'a list \<Rightarrow> 'a list list \<Rightarrow> 'a list" where
  "join sep [] = []"
| "join sep [x] = x"
| "join sep (x # y # ys) = x @ sep @ join sep (y # ys)"

text \<open>A string is truthy iff it is not empty.\<close>

definition truthy :: "'a list \<Rightarrow> bool" where
  "truthy s = (s \<noteq> [])"

text \<open>\<open>String.prototype.startsWith\<close>.\<close>

fun startsWith :: "'a list \<Rightarrow> 'a list \<Rightarrow> bool" where
  "startsWith s [] = True"
| "startsWith [] (p # ps) = False"
| "startsWith (c # cs) (p # ps) = (c = p \<and> startsWith cs ps)"

text \<open>\<open>String.prototype.split\<close> with a separator of one code unit.\<close>

fun split :: "'a \<Rightarrow> 'a list \<Rightarrow> 'a list list" where
  "split sep [] = [[]]"
| "split sep (c # cs) =
     (if c = sep then [] # split sep cs
      else (case split sep cs of [] \<Rightarrow> [[c]] | p # ps \<Rightarrow> (c # p) # ps))"

section \<open>Data model (types.ts as used by App.tsx)\<close>

record ImageFile =
  base64 :: "jstring option"
  mimeType :: jstring

record Character =
  id_c :: nat
  name :: jstring
  image_c :: "ImageFile option"

datatype tab = Generate | EditTab

text \<open>The state read by the prompt generator effect of \<open>App\<close>.\<close>

record scene =
  characters :: "Character list"
  additionalElements :: "Character list"
  sceneDescription :: jstring
  sceneLocationImage :: "ImageFile option"
  styleImage :: "ImageFile option"
  aspectRatio :: jstring
  artisticStyle :: jstring
  lightingStyle :: jstring
  cameraPerspective :: jstring

section \<open>The prompt generator (App.tsx, effect of the Generate tab)\<close>

text \<open>
  \<open>characters.filter(c => c.image !== null && c.name.trim() !== '')
     .map(c => `(${c.name.trim()})`).join(', ')\<close>; the same expression is applied to
  \<open>additionalElements\<close>.
\<close>

definition listed :: "Character \<Rightarrow> bool" where
  "listed c = (image_c c \<noteq> None \<and> trim (name c) \<noteq> [])"

definition names_of :: "Character list \<Rightarrow> jstring" where
  "names_of cs =
     join (lit '', '') (map (\<lambda>c. lit ''('' @ trim (name c) @ lit '')'') (filter listed cs))"

definition characterNames :: "scene \<Rightarrow> jstring" where
  "characterNames s = names_of (characters s)"

definition elementNames :: "scene \<Rightarrow> jstring" where
  "elementNames s = names_of (additionalElements s)"

text \<open>\<open>characters.some(c => c.image !== null)\<close> and its twin on the objects.\<close>

definition hasCharacterImage :: "scene \<Rightarrow> bool" where
  "hasCharacterImage s = list_ex (\<lambda>c. image_c c \<noteq> None) (characters s)"

definition hasElementImage :: "scene \<Rightarrow> bool" where
  "hasElementImage s = list_ex (\<lambda>e. image_c e \<noteq> None) (additionalElements s)"

text \<open>The derived flag of \<open>App\<close> that gates the Generate button.\<close>

definition hasSceneDescription :: "scene \<Rightarrow> bool" where
  "hasSceneDescription s = (trim (sceneDescription s) \<noteq> [])"

definition characterIntegration :: "scene \<Rightarrow> jstring" where
  "characterIntegration s =
     (if truthy (characterNames s)
      then lit ''Integrate the characters '' @ characterNames s
             @ lit '' from their reference images.''
      else [])"

definition elementIntegration :: "scene \<Rightarrow> jstring" where
  "elementIntegration s =
     (if truthy (elementNames s)
      then lit ''Integrate the objects '' @ elementNames s
             @ lit '' from their reference images.''
      else [])"

definition locationClause :: jstring where
  \<open>locationClause =
     lit ''Use the provided "Scene Location" image as the background environment.''\<close>

definition locationIntegration :: "scene \<Rightarrow> jstring" where
  "locationIntegration s = (if sceneLocationImage s \<noteq> None then locationClause else [])"

definition integrationInstructions :: "scene \<Rightarrow> jstring" where
  "integrationInstructions s =
     join (lit '' '')
       (filter truthy [characterIntegration s, elementIntegration s, locationIntegration s])"

definition styleClause :: jstring where
  \<open>styleClause =
     lit ''Use the "Style Reference" image to influence the overall visual style and color palette.''\<close>

definition transparencyClause :: jstring where
  "transparencyClause =
     lit ''CRITICAL INSTRUCTION: For any reference images with transparent padding, you must fill these transparent areas by extending the generated scene into them. The final image must be a complete, seamless scene from edge to edge. DO NOT render black bars, borders, letterboxing, or pillarboxing. The subjects from the reference images must be perfectly and naturally integrated into the new environment.''"

text \<open>The array \<open>promptParts\<close> after the seven pushes, in the order of the source.\<close>

definition promptParts :: "scene \<Rightarrow> jstring list" where
  "promptParts s =
     [lit ''Generate a cinematic image in a '' @ artisticStyle s @ lit '' style.'']
     @ (if truthy (sceneDescription s)
        then [lit ''The scene is: '' @ sceneDescription s @ lit ''.''] else [])
     @ [lit ''Use a '' @ cameraPerspective s @ lit '' with a '' @ aspectRatio s
          @ lit '' aspect ratio.'']
     @ [lit ''The lighting is '' @ lightingStyle s @ lit ''.'']
     @ (if truthy (integrationInstructions s) then [integrationInstructions s] else [])
     @ (if styleImage s \<noteq> None then [styleClause] else [])
     @ (if hasCharacterImage s \<or> hasElementImage s then [transparencyClause] else [])"

definition newPrompt :: "scene \<Rightarrow> jstring" where
  "newPrompt s = join (lit '' '') (filter truthy (promptParts s))"

text \<open>
  The effect as a state update of \<open>generatedPrompt\<close>: it returns at once unless the
  Generate tab is active.
\<close>

definition promptEffect :: "tab \<Rightarrow> scene \<Rightarrow> jstring \<Rightarrow> jstring" where
  "promptEffect activeTab s generatedPrompt =
     (if activeTab \<noteq> Generate then generatedPrompt else newPrompt s)"

section \<open>JavaScript numbers\<close>

text \<open>
  A JavaScript number is an IEEE 754 binary64 value: NaN, an infinity, a zero of either
  sign, or a finite non-zero value. \<open>Fin x\<close> is the finite value \<open>x\<close>, and \<open>Fin 0\<close> is
  \<open>+0\<close>; \<open>NegZero\<close> is \<open>-0\<close>.
\<close>

datatype number = NaN | Fin real | NegZero | PosInf | NegInf

fun val :: "number \<Rightarrow> real" where
  "val (Fin x) = x"
| "val n = 0"

fun negative :: "number \<Rightarrow> bool" where
  "negative (Fin x) = (x < 0)"
| "negative NegZero = True"
| "negative NegInf = True"
| "negative n = False"

definition is_zero :: "number \<Rightarrow> bool" where
  "is_zero n = (n = Fin 0 \<or> n = NegZero)"

definition is_inf :: "number \<Rightarrow> bool" where
  "is_inf n = (n = PosInf \<or> n = NegInf)"

definition zero_of :: "bool \<Rightarrow> number" where
  "zero_of neg = (if neg then NegZero else Fin 0)"

definition inf_of :: "bool \<Rightarrow> number" where
  "inf_of neg = (if neg then NegInf else PosInf)"

subsection \<open>Rounding to binary64\<close>

definition pow2 :: "int \<Rightarrow> real" where
  "pow2 e = (if 0 \<le> e then 2 ^ nat e else 1 / 2 ^ nat (- e))"

text \<open>
  The binary exponent of a positive \<open>a\<close>, that is \<open>e\<close> with \<open>2^e \<le> a < 2^(e+1)\<close>, found
  by halving or doubling; 1024 steps are enough for every \<open>a\<close> in the normal range.
\<close>

fun expo_up :: "nat \<Rightarrow> real \<Rightarrow> int \<Rightarrow> int" where
  "expo_up 0 a e = e"
| "expo_up (Suc n) a e = (if 2 \<le> a then expo_up n (a / 2) (e + 1) else e)"

fun expo_down :: "nat \<Rightarrow> real \<Rightarrow> int \<Rightarrow> int" where
  "expo_down 0 a e = e"
| "expo_down (Suc n) a e = (if a < 1 then expo_down n (2 * a) (e - 1) else e)"

definition exponent2 :: "real \<Rightarrow> int" where
  "exponent2 a = (if 1 \<le> a then expo_up 1024 a 0 else expo_down 1024 a 0)"

text \<open>The nearest integer, a tie going to the even one.\<close>

definition rne :: "real \<Rightarrow> int" where
  "rne m =
     (if m - of_int \<lfloor>m\<rfloor> < 1 / 2 then \<lfloor>m\<rfloor>
      else if 1 / 2 < m - of_int \<lfloor>m\<rfloor> then \<lfloor>m\<rfloor> + 1
      else if even \<lfloor>m\<rfloor> then \<lfloor>m\<rfloor> else \<lfloor>m\<rfloor> + 1)"

text \<open>
  The magnitude \<open>a\<close> with binary exponent \<open>e\<close> rounded to a multiple of \<open>2^(e-52)\<close>,
  with the sign \<open>neg\<close>.
\<close>

definition fl_round :: "bool \<Rightarrow> real \<Rightarrow> int \<Rightarrow> number" where
  "fl_round neg a e =
     (if rne (a / pow2 (e - 52)) = 0 then zero_of neg
      else Fin ((if neg then - 1 else 1) * (of_int (rne (a / pow2 (e - 52))) * pow2 (e - 52))))"

text \<open>
  The binary64 value nearest to a real, ties to even: infinite from
  \<open>2^1024 - 2^970\<close> on, a multiple of \<open>2^-1074\<close> below \<open>2^-1022\<close>, and with 53
  significant bits in between. A result of zero takes the sign of \<open>x\<close>.
\<close>

definition fl :: "real \<Rightarrow> number" where
  "fl x =
     (if 2 ^ 1024 - 2 ^ 970 \<le> \<bar>x\<bar> then inf_of (x < 0)
      else fl_round (x < 0) \<bar>x\<bar> (if \<bar>x\<bar> < pow2 (- 1022) then - 1022 else exponent2 \<bar>x\<bar>))"

subsection \<open>Arithmetic\<close>

text \<open>The sign of a quotient or product is the exclusive or of the signs.\<close>

definition js_div :: "number \<Rightarrow> number \<Rightarrow> number" where
  "js_div a b =
     (if a = NaN \<or> b = NaN then NaN
      else if is_inf a then (if is_inf b then NaN else inf_of (negative a \<noteq> negative b))
      else if is_inf b then zero_of (negative a \<noteq> negative b)
      else if is_zero b then (if is_zero a then NaN else inf_of (negative a \<noteq> negative b))
      else if is_zero a then zero_of (negative a \<noteq> negative b)
      else fl (val a / val b))"

definition js_mul :: "number \<Rightarrow> number \<Rightarrow> number" where
  "js_mul a b =
     (if a = NaN \<or> b = NaN then NaN
      else if is_inf a \<or> is_inf b
      then (if is_zero a \<or> is_zero b then NaN else inf_of (negative a \<noteq> negative b))
      else if is_zero a \<or> is_zero b then zero_of (negative a \<noteq> negative b)
      else fl (val a * val b))"

definition js_sub :: "number \<Rightarrow> number \<Rightarrow> number" where
  "js_sub a b =
     (if a = NaN \<or> b = NaN then NaN
      else if is_inf a then (if a = b then NaN else a)
      else if is_inf b then inf_of (b = PosInf)
      else if val a - val b = 0 then (if a = NegZero \<and> b = Fin 0 then NegZero else Fin 0)
      else fl (val a - val b))"

text \<open>The comparison \<open>a > b\<close>: false as soon as one side is NaN; the two zeros are equal.\<close>

definition js_gt :: "number \<Rightarrow> number \<Rightarrow> bool" where
  "js_gt a b =
     (a \<noteq> NaN \<and> b \<noteq> NaN \<and>
      (if is_inf a \<or> is_inf b then (a = PosInf \<and> b \<noteq> PosInf) \<or> (b = NegInf \<and> a \<noteq> NegInf)
       else val b < val a))"

text \<open>
  \<open>Math.round\<close>: the nearest integer, a tie going up; the result is \<open>-0\<close> for an
  argument from \<open>-0.5\<close> to \<open>-0\<close>.
\<close>

fun Math_round :: "number \<Rightarrow> number" where
  "Math_round (Fin x) = (if x < 0 \<and> \<lfloor>x + 1 / 2\<rfloor> = 0 then NegZero else Fin (of_int \<lfloor>x + 1 / 2\<rfloor>))"
| "Math_round n = n"

fun negate :: "number \<Rightarrow> number" where
  "negate NaN = NaN"
| "negate (Fin x) = (if x = 0 then NegZero else Fin (- x))"
| "negate NegZero = Fin 0"
| "negate PosInf = NegInf"
| "negate NegInf = PosInf"

subsection \<open>parseFloat\<close>

definition is_digit :: "16 word \<Rightarrow> bool" where
  "is_digit c = (48 \<le> c \<and> c \<le> 57)"

definition digit_val :: "16 word \<Rightarrow> nat" where
  "digit_val c = unat c - 48"

definition digits_val :: "jstring \<Rightarrow> nat" where
  "digits_val ds = foldl (\<lambda>acc c. 10 * acc + digit_val c) 0 ds"

text \<open>
  The exponent part that may follow the mantissa: \<open>e\<close> or \<open>E\<close>, an optional sign and at
  least one digit. Anything else is not part of the literal and counts as exponent 0.
\<close>

definition exponent :: "jstring \<Rightarrow> int" where
  "exponent r =
     (case r of
        [] \<Rightarrow> 0
      | c # r1 \<Rightarrow>
          if c = cu (CHR ''e'') \<or> c = cu (CHR ''E'') then
            (case r1 of
               [] \<Rightarrow> 0
             | d # r2 \<Rightarrow>
                 if d = cu (CHR ''-'') then - int (digits_val (takeWhile is_digit r2))
                 else if d = cu (CHR ''+'') then int (digits_val (takeWhile is_digit r2))
                 else int (digits_val (takeWhile is_digit r1)))
          else 0)"

definition scale10 :: "real \<Rightarrow> int \<Rightarrow> real" where
  "scale10 m e = (if 0 \<le> e then m * 10 ^ nat e else m / 10 ^ nat (- e))"

text \<open>
  The unsigned literal: \<open>Infinity\<close>, or digits with an optional fraction and exponent, or
  a fraction that starts with the point; its decimal value is rounded to binary64.
  \<open>None\<close> when no prefix is such a literal.
\<close>

definition unsignedLiteral :: "jstring \<Rightarrow> number option" where
  "unsignedLiteral u =
     (if startsWith u (lit ''Infinity'') then Some PosInf
      else
        let ip = takeWhile is_digit u; r1 = dropWhile is_digit u;
            point = (r1 \<noteq> [] \<and> hd r1 = cu (CHR ''.''));
            fp = (if point then takeWhile is_digit (tl r1) else []);
            r2 = (if point then dropWhile is_digit (tl r1) else r1)
        in if ip = [] \<and> fp = [] then None
           else Some (fl (scale10
                  (real (digits_val ip) + real (digits_val fp) / 10 ^ length fp)
                  (exponent r2))))"

definition parseFloat :: "jstring \<Rightarrow> number" where
  "parseFloat s =
     (let t = dropWhile is_ws s;
          neg = (t \<noteq> [] \<and> hd t = cu (CHR ''-''));
          u = (if t \<noteq> [] \<and> (hd t = cu (CHR ''-'') \<or> hd t = cu (CHR ''+'')) then tl t else t)
      in case unsignedLiteral u of
           None \<Rightarrow> NaN
         | Some n \<Rightarrow> if neg then negate n else n)"

subsection \<open>parseAspectRatio (components/ImageEditor.tsx)\<close>

text \<open>
  Neither \<open>parseFloat\<close> nor the division throws, so the \<open>catch\<close> of the source is never
  entered. \<open>den === 0\<close> holds for both zeros.
\<close>

definition parseAspectRatio :: "jstring \<Rightarrow> number" where
  "parseAspectRatio ratioStr =
     (let parts = split (cu (CHR '':'')) ratioStr
      in if length parts \<noteq> 2 then js_div (Fin 16) (Fin 9)
         else
           let num = parseFloat (parts ! 0); den = parseFloat (parts ! 1)
           in if is_zero den then js_div (Fin 16) (Fin 9) else js_div num den)"

section \<open>Data URLs (components/ImageUploader.tsx)\<close>

datatype error = InvalidDataUrl | NoCanvasContext | LoadFailed

text \<open>
  The regular expression \<open>/:(.*?);/\<close>: the leftmost colon that is followed by a semicolon
  with no line terminator in between; the group is the text between that colon and the
  first semicolon after it.
\<close>

definition is_line_terminator :: "16 word \<Rightarrow> bool" where
  "is_line_terminator c = (c = 0x000A \<or> c = 0x000D \<or> c = 0x2028 \<or> c = 0x2029)"

definition upto_semicolon :: "jstring \<Rightarrow> jstring option" where
  "upto_semicolon r =
     (let g = takeWhile (\<lambda>c. c \<noteq> cu (CHR '';'')) r
      in if length g < length r \<and> \<not> list_ex is_line_terminator g then Some g else None)"

fun match_mime :: "jstring \<Rightarrow> jstring option" where
  "match_mime [] = None"
| "match_mime (c # cs) =
     (if c = cu (CHR '':'')
      then (case upto_semicolon cs of Some g \<Rightarrow> Some g | None \<Rightarrow> match_mime cs)
      else match_mime cs)"

definition parseDataUrl :: "jstring \<Rightarrow> error + ImageFile" where
  "parseDataUrl dataUrl =
     (let parts = split (cu (CHR '','')) dataUrl
      in case match_mime (parts ! 0) of
           None \<Rightarrow> Inl InvalidDataUrl
         | Some m \<Rightarrow>
             Inr \<lparr>base64 = (if 1 < length parts then Some (parts ! 1) else None), mimeType = m\<rparr>)"

section \<open>Canvas work\<close>

text \<open>
  Assigning a number to \<open>canvas.width\<close> or \<open>canvas.height\<close> converts it to an unsigned
  long: NaN, the zeros and the infinities give 0, any other value is truncated and taken
  modulo \<open>2^32\<close>. The attribute then holds that value if it is at most 2147483647 and
  its default (300 for the width, 150 for the height) otherwise, and reads back as what it
  holds.
\<close>

definition to_unsigned_long :: "number \<Rightarrow> nat" where
  "to_unsigned_long v =
     (case v of
        Fin x \<Rightarrow> nat ((if 0 \<le> x then \<lfloor>x\<rfloor> else \<lceil>x\<rceil>) mod 4294967296)
      | _ \<Rightarrow> 0)"

definition canvas_size :: "nat \<Rightarrow> number \<Rightarrow> nat" where
  "canvas_size dflt v =
     (let k = to_unsigned_long v in if k \<le> 2147483647 then k else dflt)"

text \<open>
  What a handler does to its canvas, in the order of the source: assign \<open>canvas.width\<close>
  and \<open>canvas.height\<close> (\<open>assigned_width\<close>, \<open>assigned_height\<close>), after which the canvas
  is \<open>canvas_width\<close> by \<open>canvas_height\<close>; one \<open>drawImage(img, x, y, w, h)\<close>; then
  \<open>toDataURL(type, quality)\<close>.
\<close>

record canvas_job =
  assigned_width :: number
  assigned_height :: number
  canvas_width :: nat
  canvas_height :: nat
  draw_x :: number
  draw_y :: number
  draw_w :: number
  draw_h :: number
  out_type :: jstring
  out_quality :: number

text \<open>
  Assigning a size clears the bitmap to transparent black, and \<open>drawImage\<close> does nothing
  when an argument is not finite; otherwise it touches only the pixels that meet the
  destination rectangle. Pixel \<open>(px, py)\<close> is the unit square with that upper left corner.
\<close>

fun finite_val :: "number \<Rightarrow> real option" where
  "finite_val (Fin x) = Some x"
| "finite_val NegZero = Some 0"
| "finite_val n = None"

definition painted :: "canvas_job \<Rightarrow> int \<Rightarrow> int \<Rightarrow> bool" where
  "painted j px py =
     (case (finite_val (draw_x j), finite_val (draw_y j), finite_val (draw_w j),
            finite_val (draw_h j)) of
        (Some x, Some y, Some w, Some h) \<Rightarrow>
          x < real_of_int px + 1 \<and> real_of_int px < x + w \<and>
          y < real_of_int py + 1 \<and> real_of_int py < y + h
      | _ \<Rightarrow> False)"

definition transparent_at :: "canvas_job \<Rightarrow> int \<Rightarrow> int \<Rightarrow> bool" where
  "transparent_at j px py = (\<not> painted j px py)"

section \<open>Padding to an aspect ratio (components/ImageEditor.tsx, handleApply)\<close>

text \<open>
  The body of \<open>img.onload\<close> once canvas and context are there. The offsets are computed
  from \<open>canvas.width\<close> and \<open>canvas.height\<close> as read back from the canvas.
\<close>

definition handleApply_job :: "nat \<Rightarrow> nat \<Rightarrow> jstring \<Rightarrow> canvas_job" where
  "handleApply_job naturalWidth naturalHeight ratioStr =
     (let originalWidth = Fin (real naturalWidth);
          originalHeight = Fin (real naturalHeight);
          originalAspectRatio = js_div originalWidth originalHeight;
          targetAspectRatio = parseAspectRatio ratioStr;
          wider = js_gt originalAspectRatio targetAspectRatio;
          newWidth = (if wider then originalWidth else js_mul originalHeight targetAspectRatio);
          newHeight = (if wider then js_div originalWidth targetAspectRatio else originalHeight);
          cw = canvas_size 300 (Math_round newWidth);
          ch = canvas_size 150 (Math_round newHeight);
          xOffset = js_div (js_sub (Fin (real cw)) originalWidth) (Fin 2);
          yOffset = js_div (js_sub (Fin (real ch)) originalHeight) (Fin 2)
      in \<lparr>assigned_width = Math_round newWidth, assigned_height = Math_round newHeight,
          canvas_width = cw, canvas_height = ch,
          draw_x = xOffset, draw_y = yOffset, draw_w = originalWidth, draw_h = originalHeight,
          out_type = lit ''image/png'', out_quality = Fin 1\<rparr>)"

text \<open>The values of the aspect-ratio select (constants.ts, \<open>getAspectRatioOptions\<close>).\<close>

definition ASPECT_RATIOS :: "jstring list" where
  "ASPECT_RATIOS = [lit ''16:9'', lit ''9:16'', lit ''1:1'', lit ''4:3'', lit ''2.39:1'']"

section \<open>Resizing to a longest side (components/ImageUploader.tsx, resizeImage)\<close>

text \<open>The type handed to \<open>toDataURL\<close>: the local constant \<open>mimeType\<close> of \<open>resizeImage\<close>.\<close>

definition resize_mimeType :: "jstring \<Rightarrow> jstring" where
  "resize_mimeType imageUrl =
     (if startsWith imageUrl (lit ''data:image/jpeg'') then lit ''image/jpeg''
      else lit ''image/png'')"

definition resize_job :: "nat \<Rightarrow> nat \<Rightarrow> number \<Rightarrow> jstring \<Rightarrow> canvas_job" where
  "resize_job width height targetLongestSide imageUrl =
     (let ratio = js_div (Fin (real width)) (Fin (real height));
          newWidth = (if height < width then targetLongestSide else js_mul targetLongestSide ratio);
          newHeight = (if height < width then js_div targetLongestSide ratio else targetLongestSide)
      in \<lparr>assigned_width = Math_round newWidth, assigned_height = Math_round newHeight,
          canvas_width = canvas_size 300 (Math_round newWidth),
          canvas_height = canvas_size 150 (Math_round newHeight),
          draw_x = Fin 0, draw_y = Fin 0, draw_w = newWidth, draw_h = newHeight,
          out_type = resize_mimeType imageUrl,
          out_quality = Fin 1\<rparr>)"

text \<open>
  The browser as seen by \<open>resizeImage\<close>: loading a URL into an \<open>Image\<close> gives its natural
  width and height or fires \<open>onerror\<close> (\<open>None\<close>); \<open>getContext('2d')\<close> gives a context or
  null; \<open>toDataURL\<close> encodes the canvas and is taken to return (it throws only on a
  canvas tainted by a cross-origin image).
\<close>

record browser =
  decode :: "jstring \<Rightarrow> (nat \<times> nat) option"
  getContext :: bool
  toDataURL :: "canvas_job \<Rightarrow> jstring"

definition resizeImage :: "browser \<Rightarrow> jstring \<Rightarrow> number \<Rightarrow> error + jstring" where
  "resizeImage b imageUrl targetLongestSide =
     (case decode b imageUrl of
        None \<Rightarrow> Inl LoadFailed
      | Some (width, height) \<Rightarrow>
          if \<not> getContext b then Inl NoCanvasContext
          else Inr (toDataURL b (resize_job width height targetLongestSide imageUrl)))"

subsection \<open>Encoding families\<close>

text \<open>
  The two families of the specification, as properties of a media type. JPEG is lossy and
  has no alpha channel; PNG is lossless and alpha-capable; WebP, which browsers decode as
  well, is lossy in its usual form and alpha-capable.
\<close>

definition lossy_type :: "jstring \<Rightarrow> bool" where
  "lossy_type m = (m = lit ''image/jpeg'' \<or> m = lit ''image/webp'')"

definition alpha_type :: "jstring \<Rightarrow> bool" where
  "alpha_type m = (m = lit ''image/png'' \<or> m = lit ''image/webp'')"

text \<open>The media type of a data URL, as \<open>parseDataUrl\<close> reads it.\<close>

definition url_type :: "jstring \<Rightarrow> jstring option" where
  "url_type url = (case parseDataUrl url of Inl e \<Rightarrow> None | Inr f \<Rightarrow> Some (mimeType f))"

text \<open>
  The specification's sentence at one input: the output of \<open>resizeImage\<close> is lossy if
  the input is, and alpha-capable if the input is.
\<close>

definition family_preserved :: "jstring \<Rightarrow> bool" where
  "family_preserved url =
     (case url_type url of
        None \<Rightarrow> True
      | Some m \<Rightarrow>
          (if lossy_type m then lossy_type (resize_mimeType url) else True) \<and>
          (if alpha_type m then alpha_type (resize_mimeType url) else True))"

section \<open>History (App.tsx)\<close>

text \<open>
  \<open>createdAt\<close> is the instant of \<open>new Date()\<close> in milliseconds since the epoch; the
  source stores its ISO-8601 rendering.
\<close>

record HistoryItem =
  id_h :: jstring
  image_h :: ImageFile
  prompt_h :: jstring
  createdAt :: nat

datatype item_type = Gen | Edit

definition type_string :: "item_type \<Rightarrow> jstring" where
  "type_string t = (case t of Gen \<Rightarrow> lit ''gen'' | Edit \<Rightarrow> lit ''edit'')"

fun string_of_nat :: "nat \<Rightarrow> jstring" where
  "string_of_nat n =
     (if n < 10 then [of_nat (48 + n)]
      else string_of_nat (n div 10) @ [of_nat (48 + n mod 10)])"

declare string_of_nat.simps [simp del]

definition MAX_HISTORY_ITEMS :: nat where
  "MAX_HISTORY_ITEMS = 10"

definition HISTORY_IMAGE_SIZE :: number where
  "HISTORY_IMAGE_SIZE = Fin 512"

text \<open>
  The item built by \<open>handleAddToHistory\<close>: \<open>now_id\<close> is the value of \<open>Date.now()\<close> and
  \<open>now_created\<close> the instant of \<open>new Date()\<close>.
\<close>

definition newHistoryItem :: "item_type \<Rightarrow> nat \<Rightarrow> ImageFile \<Rightarrow> jstring \<Rightarrow> nat \<Rightarrow> HistoryItem" where
  "newHistoryItem t now_id img p now_created =
     \<lparr>id_h = type_string t @ lit ''-'' @ string_of_nat now_id, image_h = img,
      prompt_h = p, createdAt = now_created\<rparr>"

text \<open>
  \<open>handleAddToHistory\<close> as an update of the history. When \<open>resizeImage\<close> rejects or
  \<open>parseDataUrl\<close> throws, the error is logged and the history is not touched.
\<close>

definition handleAddToHistory ::
  "browser \<Rightarrow> nat \<Rightarrow> nat \<Rightarrow> jstring \<Rightarrow> jstring \<Rightarrow> item_type \<Rightarrow> HistoryItem list \<Rightarrow> HistoryItem list" where
  "handleAddToHistory b now_id now_created image_url p t prev =
     (case resizeImage b image_url HISTORY_IMAGE_SIZE of
        Inl e \<Rightarrow> prev
      | Inr resizedImage \<Rightarrow>
          (case parseDataUrl resizedImage of
             Inl e \<Rightarrow> prev
           | Inr img \<Rightarrow>
               take MAX_HISTORY_ITEMS (newHistoryItem t now_id img p now_created # prev)))"

definition handleDeleteFromHistory :: "jstring \<Rightarrow> HistoryItem list \<Rightarrow> HistoryItem list" where
  "handleDeleteFromHistory i prev = filter (\<lambda>item. id_h item \<noteq> i) prev"

text \<open>\<open>confirmed\<close> is the answer of \<open>window.confirm\<close>.\<close>

definition handleClearHistory :: "bool \<Rightarrow> HistoryItem list \<Rightarrow> HistoryItem list" where
  "handleClearHistory confirmed prev = (if confirmed then [] else prev)"

text \<open>Newest first: no item is older than one that follows it.\<close>

definition newest_first :: "HistoryItem list \<Rightarrow> bool" where
  "newest_first h = sorted_wrt (\<lambda>a b. createdAt b \<le> createdAt a) h"

subsection \<open>Loading and saving\<close>

datatype json =
  JNull | JBool bool | JNum number | JStr jstring | JArr "json list"
  | JObj "(jstring \<times> json) list"

fun isArray :: "json \<Rightarrow> bool" where
  "isArray (JArr xs) = True"
| "isArray _ = False"

type_synonym storage = "jstring \<rightharpoonup> jstring"

definition KEY :: jstring where
  "KEY = lit ''generationHistory''"

text \<open>
  The load effect, given \<open>JSON.parse\<close> (\<open>None\<close> when it throws): the argument of
  \<open>setHistory\<close> when it is called, and the storage afterwards. What it loads is whatever
  the parser returned: the cast to \<open>HistoryItem[]\<close> checks nothing.
\<close>

definition loadHistory ::
  "(jstring \<Rightarrow> json option) \<Rightarrow> storage \<Rightarrow> json list option \<times> storage" where
  "loadHistory parse st =
     (case st KEY of
        None \<Rightarrow> (None, st)
      | Some storedHistory \<Rightarrow>
          if \<not> truthy storedHistory then (None, st)
          else
            (case parse storedHistory of
               None \<Rightarrow> (None, st(KEY := None))
             | Some parsedHistory \<Rightarrow>
                 (case parsedHistory of
                    JArr xs \<Rightarrow> (Some (take MAX_HISTORY_ITEMS xs), st)
                  | _ \<Rightarrow> (None, st))))"

text \<open>
  The save effect, given \<open>JSON.stringify\<close> and whether \<open>setItem\<close> accepts the text (it
  throws when the quota is exceeded, which the effect logs).
\<close>

definition saveHistory ::
  "('a list \<Rightarrow> jstring) \<Rightarrow> (jstring \<Rightarrow> bool) \<Rightarrow> 'a list \<Rightarrow> storage \<Rightarrow> storage" where
  "saveHistory stringify accepts history st =
     (if 0 < length history
      then (if accepts (stringify history) then st(KEY \<mapsto> stringify history) else st)
      else st(KEY := None))"

text \<open>
  Mounting \<open>App\<close>: the first render has the empty history; both effects run in the order
  of the source, the save effect on that empty history; if the load effect called
  \<open>setHistory\<close>, the next render has the loaded history and the save effect runs again.
\<close>

definition mount ::
  "(jstring \<Rightarrow> json option) \<Rightarrow> (json list \<Rightarrow> jstring) \<Rightarrow> (jstring \<Rightarrow> bool) \<Rightarrow> storage
     \<Rightarrow> json list \<times> storage" where
  "mount parse stringify accepts st =
     (let (loaded, st1) = loadHistory parse st;
          st2 = saveHistory stringify accepts [] st1
      in case loaded of
           None \<Rightarrow> ([], st2)
         | Some h \<Rightarrow> (h, saveHistory stringify accepts h st2))"

text \<open>
  The values of \<open>JSON.parse\<close> on the texts the evaluations below use: four JSON texts
  and, with \<open>None\<close>, texts that are not JSON.
\<close>

definition parse_table :: "jstring \<Rightarrow> json option" where
  "parse_table s =
     (if s = lit ''null'' then Some JNull
      else if s = lit ''{}'' then Some (JObj [])
      else if s = lit ''[]'' then Some (JArr [])
      else if s = lit ''[0,1,2,3,4,5,6,7,8,9,10]'' then
        Some (JArr (map JNum [Fin 0, Fin 1, Fin 2, Fin 3, Fin 4, Fin 5, Fin 6, Fin 7, Fin 8,
                              Fin 9, Fin 10]))
      else None)"

section \<open>Sample inputs\<close>

definition sample_image :: ImageFile where
  "sample_image = \<lparr>base64 = Some (lit ''AAAA''), mimeType = lit ''image/png''\<rparr>"

text \<open>The state of the Generate tab when \<open>App\<close> starts.\<close>

definition initial_scene :: scene where
  "initial_scene =
     \<lparr>characters = [\<lparr>id_c = 1, name = lit ''homme'', image_c = None\<rparr>,
                    \<lparr>id_c = 2, name = lit ''femme'', image_c = None\<rparr>],
      additionalElements = [], sceneDescription = [],
      sceneLocationImage = None, styleImage = None,
      aspectRatio = lit ''16:9'', artisticStyle = lit ''photorealistic'',
      lightingStyle = lit ''natural morning light'',
      cameraPerspective = lit ''eye-level shot''\<rparr>"

text \<open>The user has typed three spaces into the scene description.\<close>

definition blank_scene :: scene where
  "blank_scene = initial_scene\<lparr>sceneDescription := lit ''   ''\<rparr>"

text \<open>
  The first character has an image and a name of an ideographic space and an em space;
  the second is named \<open>femme\<close> with a space in front.
\<close>

definition unnamed_character :: Character where
  "unnamed_character = \<lparr>id_c = 1, name = [0x3000, 0x2003], image_c = Some sample_image\<rparr>"

definition named_character :: Character where
  "named_character = \<lparr>id_c = 2, name = lit '' femme'', image_c = Some sample_image\<rparr>"

definition unnamed_scene :: scene where
  "unnamed_scene = initial_scene\<lparr>characters := [unnamed_character, named_character]\<rparr>"

text \<open>A browser that loads every URL as a 1024 by 768 image and encodes to four bytes.\<close>

definition sample_browser :: browser where
  "sample_browser =
     \<lparr>decode = (\<lambda>url. Some (1024, 768)), getContext = True,
      toDataURL = (\<lambda>j. lit ''data:'' @ out_type j @ lit '';base64,AAAA'')\<rparr>"

text \<open>A full history: ten items created at the instants 10 down to 1.\<close>

definition old_item :: "nat \<Rightarrow> HistoryItem" where
  "old_item n =
     \<lparr>id_h = lit ''gen-0'', image_h = sample_image, prompt_h = lit ''a prompt'',
      createdAt = n\<rparr>"

definition full_history :: "HistoryItem list" where
  "full_history = map old_item [10, 9, 8, 7, 6, 5, 4, 3, 2, 1]"

section \<open>Properties of the prompt generator\<close>

lemmas prompt_defs = newPrompt_def promptParts_def integrationInstructions_def
  characterIntegration_def elementIntegration_def locationIntegration_def locationClause_def
  characterNames_def elementNames_def names_of_def listed_def styleClause_def
  hasCharacterImage_def hasElementImage_def truthy_def trim_def is_ws_def lit_def

lemma join_snoc: "join sep (xs @ [x]) = (if xs = [] then x else join sep xs @ sep @ x)"
  by (induction sep xs rule: join.induct) auto

lemma join_Cons: "join sep (x # xs) = (if xs = [] then x else x @ sep @ join sep xs)"
  by (cases xs) auto

lemma lit_Nil: "lit s = [] \<longleftrightarrow> s = []"
  by (simp add: lit_def)

text \<open>With an empty description the second part is the composition clause.\<close>

lemma initial_prompt:
  "newPrompt initial_scene =
     lit ''Generate a cinematic image in a photorealistic style. Use a eye-level shot with a 16:9 aspect ratio. The lighting is natural morning light.''"
  by (simp add: initial_scene_def prompt_defs)

lemma scene_clause_pushed:
  "sceneDescription s \<noteq> [] \<Longrightarrow>
     promptParts s ! 1 = lit ''The scene is: '' @ sceneDescription s @ lit ''.''"
  by (simp add: promptParts_def truthy_def)

text \<open>
  C1. A description of three spaces is blank (the flag \<open>hasSceneDescription\<close>, which trims,
  is false), yet the generator tests the untrimmed string for emptiness only and renders
  the clause \<open>The scene is:    .\<close> into the prompt.
\<close>

theorem blank_description_rendered:
  "trim (sceneDescription blank_scene) = []
   \<and> \<not> hasSceneDescription blank_scene
   \<and> promptParts blank_scene ! 1 = lit ''The scene is:    .''
   \<and> newPrompt blank_scene =
       lit ''Generate a cinematic image in a photorealistic style. The scene is:    . Use a eye-level shot with a 16:9 aspect ratio. The lighting is natural morning light.''"
  by (simp add: blank_scene_def initial_scene_def hasSceneDescription_def prompt_defs)

subsection \<open>The names listed in the integration clause\<close>

lemma names_of_Nil: "names_of cs = [] \<longleftrightarrow> filter listed cs = []"
proof (cases "filter listed cs")
  case Nil
  then show ?thesis by (simp add: names_of_def)
next
  case (Cons a as)
  then show ?thesis by (cases as) (simp_all add: names_of_def lit_def)
qed

text \<open>The list of names by recursion on the entries, in their order.\<close>

lemma names_of_Cons:
  "names_of (c # cs) =
     (if listed c
      then lit ''('' @ trim (name c) @ lit '')''
             @ (if filter listed cs = [] then [] else lit '', '' @ names_of cs)
      else names_of cs)"
  by (simp add: names_of_def join_Cons)

lemma names_of_skip: "\<not> listed c \<Longrightarrow> names_of (xs @ c # ys) = names_of (xs @ ys)"
  by (simp add: names_of_def)

lemma transparencyClause_truthy: "truthy transparencyClause"
  by (simp add: transparencyClause_def truthy_def lit_def)

text \<open>Every part that is pushed is non-empty, so the final filter drops nothing.\<close>

lemma parts_truthy: "filter truthy (promptParts s) = promptParts s"
  using transparencyClause_truthy
  by (simp add: promptParts_def truthy_def styleClause_def lit_def)

lemma some_image:
  "c \<in> set cs \<Longrightarrow> image_c c \<noteq> None \<Longrightarrow> list_ex (\<lambda>c. image_c c \<noteq> None) cs"
  by (auto simp: list_ex_iff)

lemma prompt_with_image:
  assumes "hasCharacterImage s \<or> hasElementImage s"
  shows "newPrompt s =
     join (lit '' '')
       ([lit ''Generate a cinematic image in a '' @ artisticStyle s @ lit '' style.'']
        @ (if sceneDescription s = [] then []
           else [lit ''The scene is: '' @ sceneDescription s @ lit ''.''])
        @ [lit ''Use a '' @ cameraPerspective s @ lit '' with a '' @ aspectRatio s
             @ lit '' aspect ratio.'',
           lit ''The lighting is '' @ lightingStyle s @ lit ''.'']
        @ (if integrationInstructions s = [] then [] else [integrationInstructions s])
        @ (if styleImage s = None then [] else [styleClause]))
     @ lit '' '' @ transparencyClause"
proof -
  let ?front =
    "[lit ''Generate a cinematic image in a '' @ artisticStyle s @ lit '' style.'']
        @ (if sceneDescription s = [] then []
           else [lit ''The scene is: '' @ sceneDescription s @ lit ''.''])
        @ [lit ''Use a '' @ cameraPerspective s @ lit '' with a '' @ aspectRatio s
             @ lit '' aspect ratio.'',
           lit ''The lighting is '' @ lightingStyle s @ lit ''.'']
        @ (if integrationInstructions s = [] then [] else [integrationInstructions s])
        @ (if styleImage s = None then [] else [styleClause])"
  have p: "promptParts s = ?front @ [transparencyClause]"
    using assms by (simp add: promptParts_def truthy_def)
  have ne: "?front \<noteq> []" by simp
  have "newPrompt s = join (lit '' '') (promptParts s)"
    by (simp only: newPrompt_def parts_truthy)
  also have "\<dots> = join (lit '' '') (?front @ [transparencyClause])"
    by (simp only: p)
  also have "\<dots> = join (lit '' '') ?front @ lit '' '' @ transparencyClause"
    using ne by (simp only: join_snoc if_False)
  finally show ?thesis .
qed

lemma integration_explicit:
  "integrationInstructions s =
     join (lit '' '')
       (filter (\<lambda>p. p \<noteq> [])
         [if filter (\<lambda>c. image_c c \<noteq> None \<and> trim (name c) \<noteq> []) (characters s) = [] then []
          else lit ''Integrate the characters ''
                 @ join (lit '', '') (map (\<lambda>c. lit ''('' @ trim (name c) @ lit '')'')
                     (filter (\<lambda>c. image_c c \<noteq> None \<and> trim (name c) \<noteq> []) (characters s)))
                 @ lit '' from their reference images.'',
          if filter (\<lambda>c. image_c c \<noteq> None \<and> trim (name c) \<noteq> []) (additionalElements s) = []
          then []
          else lit ''Integrate the objects ''
                 @ join (lit '', '') (map (\<lambda>c. lit ''('' @ trim (name c) @ lit '')'')
                     (filter (\<lambda>c. image_c c \<noteq> None \<and> trim (name c) \<noteq> [])
                        (additionalElements s)))
                 @ lit '' from their reference images.'',
          if sceneLocationImage s = None then [] else locationClause])"
proof -
  have l: "listed = (\<lambda>c. image_c c \<noteq> None \<and> trim (name c) \<noteq> [])"
    by (rule ext) (simp add: listed_def)
  have c: "characterIntegration s =
     (if filter listed (characters s) = [] then []
      else lit ''Integrate the characters '' @ names_of (characters s)
             @ lit '' from their reference images.'')"
    using names_of_Nil [of "characters s"]
    by (simp add: characterIntegration_def characterNames_def truthy_def)
  have e: "elementIntegration s =
     (if filter listed (additionalElements s) = [] then []
      else lit ''Integrate the objects '' @ names_of (additionalElements s)
             @ lit '' from their reference images.'')"
    using names_of_Nil [of "additionalElements s"]
    by (simp add: elementIntegration_def elementNames_def truthy_def)
  have t: "truthy = (\<lambda>p::jstring. p \<noteq> [])"
    by (rule ext) (simp add: truthy_def)
  show ?thesis
    unfolding integrationInstructions_def c e locationIntegration_def t names_of_def l
    by simp
qed

lemma integration_skip:
  assumes "\<not> listed c"
  shows "integrationInstructions (s\<lparr>characters := xs @ c # ys\<rparr>)
           = integrationInstructions (s\<lparr>characters := xs @ ys\<rparr>)"
    and "integrationInstructions (s\<lparr>additionalElements := xs @ c # ys\<rparr>)
           = integrationInstructions (s\<lparr>additionalElements := xs @ ys\<rparr>)"
  using assms names_of_skip [of c xs ys]
  by (simp_all add: integrationInstructions_def characterIntegration_def elementIntegration_def
      locationIntegration_def characterNames_def elementNames_def)

text \<open>
  C4. Let an entry of the characters or of the objects have an image and a blank name.
  Then the prompt is the always-present and the optional clauses joined by single spaces,
  with the integration clause in its place and the transparency instruction as the last
  clause. The integration clause is made of the characters sentence, the objects sentence
  and the location sentence, each only if it has content; a sentence lists exactly the
  entries of its list that have both an image and a non-blank name, in their order, each
  trimmed name in parentheses, separated by a comma and a space. The entry with the blank
  name is not among the listed ones, and the integration clause is the same as for the
  scene without that entry.
\<close>

theorem blank_named_reference:
  assumes "image_c c \<noteq> None" and "trim (name c) = []"
    and "c \<in> set (characters s) \<or> c \<in> set (additionalElements s)"
  shows "newPrompt s =
      join (lit '' '')
        ([lit ''Generate a cinematic image in a '' @ artisticStyle s @ lit '' style.'']
         @ (if sceneDescription s = [] then []
            else [lit ''The scene is: '' @ sceneDescription s @ lit ''.''])
         @ [lit ''Use a '' @ cameraPerspective s @ lit '' with a '' @ aspectRatio s
              @ lit '' aspect ratio.'',
            lit ''The lighting is '' @ lightingStyle s @ lit ''.'']
         @ (if integrationInstructions s = [] then [] else [integrationInstructions s])
         @ (if styleImage s = None then [] else [styleClause]))
      @ lit '' '' @ transparencyClause
    \<and> integrationInstructions s =
      join (lit '' '')
        (filter (\<lambda>p. p \<noteq> [])
          [if filter (\<lambda>c. image_c c \<noteq> None \<and> trim (name c) \<noteq> []) (characters s) = [] then []
           else lit ''Integrate the characters ''
                  @ join (lit '', '') (map (\<lambda>c. lit ''('' @ trim (name c) @ lit '')'')
                      (filter (\<lambda>c. image_c c \<noteq> None \<and> trim (name c) \<noteq> []) (characters s)))
                  @ lit '' from their reference images.'',
           if filter (\<lambda>c. image_c c \<noteq> None \<and> trim (name c) \<noteq> []) (additionalElements s) = []
           then []
           else lit ''Integrate the objects ''
                  @ join (lit '', '') (map (\<lambda>c. lit ''('' @ trim (name c) @ lit '')'')
                      (filter (\<lambda>c. image_c c \<noteq> None \<and> trim (name c) \<noteq> [])
                         (additionalElements s)))
                  @ lit '' from their reference images.'',
           if sceneLocationImage s = None then [] else locationClause])
    \<and> c \<notin> set (filter (\<lambda>c. image_c c \<noteq> None \<and> trim (name c) \<noteq> []) (characters s))
    \<and> c \<notin> set (filter (\<lambda>c. image_c c \<noteq> None \<and> trim (name c) \<noteq> []) (additionalElements s))
    \<and> (\<forall>xs ys. characters s = xs @ c # ys \<longrightarrow>
          integrationInstructions s = integrationInstructions (s\<lparr>characters := xs @ ys\<rparr>))
    \<and> (\<forall>xs ys. additionalElements s = xs @ c # ys \<longrightarrow>
          integrationInstructions s = integrationInstructions (s\<lparr>additionalElements := xs @ ys\<rparr>))"
proof -
  have nl: "\<not> listed c"
    using assms(2) by (simp add: listed_def)
  have "hasCharacterImage s \<or> hasElementImage s"
    using assms(1,3) some_image [of c] by (auto simp: hasCharacterImage_def hasElementImage_def)
  note a = prompt_with_image [OF this]
  note b = integration_explicit [of s]
  have d: "c \<notin> set (filter (\<lambda>c. image_c c \<noteq> None \<and> trim (name c) \<noteq> []) (characters s))"
    "c \<notin> set (filter (\<lambda>c. image_c c \<noteq> None \<and> trim (name c) \<noteq> []) (additionalElements s))"
    using assms(2) by simp_all
  have e: "\<forall>xs ys. characters s = xs @ c # ys \<longrightarrow>
          integrationInstructions s = integrationInstructions (s\<lparr>characters := xs @ ys\<rparr>)"
  proof (intro allI impI)
    fix xs ys assume "characters s = xs @ c # ys"
    then have "s = s\<lparr>characters := xs @ c # ys\<rparr>" by simp
    then have "integrationInstructions s = integrationInstructions (s\<lparr>characters := xs @ c # ys\<rparr>)"
      by simp
    then show "integrationInstructions s = integrationInstructions (s\<lparr>characters := xs @ ys\<rparr>)"
      by (simp only: integration_skip(1) [OF nl])
  qed
  have f: "\<forall>xs ys. additionalElements s = xs @ c # ys \<longrightarrow>
          integrationInstructions s = integrationInstructions (s\<lparr>additionalElements := xs @ ys\<rparr>)"
  proof (intro allI impI)
    fix xs ys assume "additionalElements s = xs @ c # ys"
    then have "s = s\<lparr>additionalElements := xs @ c # ys\<rparr>" by simp
    then have "integrationInstructions s
                 = integrationInstructions (s\<lparr>additionalElements := xs @ c # ys\<rparr>)"
      by simp
    then show "integrationInstructions s
                 = integrationInstructions (s\<lparr>additionalElements := xs @ ys\<rparr>)"
      by (simp only: integration_skip(2) [OF nl])
  qed
  from a b d e f show ?thesis by (intro conjI)
qed

theorem blank_named_reference_witness:
  "image_c unnamed_character \<noteq> None \<and> trim (name unnamed_character) = []
   \<and> unnamed_character \<in> set (characters unnamed_scene)
   \<and> integrationInstructions unnamed_scene =
       lit ''Integrate the characters (femme) from their reference images.''
   \<and> newPrompt unnamed_scene =
       lit ''Generate a cinematic image in a photorealistic style. Use a eye-level shot with a 16:9 aspect ratio. The lighting is natural morning light. Integrate the characters (femme) from their reference images. '' @ transparencyClause"
proof -
  have h: "image_c unnamed_character \<noteq> None" "trim (name unnamed_character) = []"
    "unnamed_character \<in> set (characters unnamed_scene)
       \<or> unnamed_character \<in> set (additionalElements unnamed_scene)"
    by (simp_all add: unnamed_character_def unnamed_scene_def initial_scene_def trim_def is_ws_def)
  note t = blank_named_reference [OF h]
  have n: "trim (name named_character) = lit ''femme''" "image_c named_character \<noteq> None"
    by (simp_all add: named_character_def trim_def is_ws_def lit_def)
  have f: "characters unnamed_scene = [unnamed_character, named_character]"
    "additionalElements unnamed_scene = []" "sceneLocationImage unnamed_scene = None"
    "styleImage unnamed_scene = None" "sceneDescription unnamed_scene = []"
    "artisticStyle unnamed_scene = lit ''photorealistic''"
    "cameraPerspective unnamed_scene = lit ''eye-level shot''"
    "aspectRatio unnamed_scene = lit ''16:9''"
    "lightingStyle unnamed_scene = lit ''natural morning light''"
    by (simp_all add: unnamed_scene_def initial_scene_def)
  from t have "integrationInstructions unnamed_scene =
      join (lit '' '')
        (filter (\<lambda>p. p \<noteq> [])
          [if filter (\<lambda>c. image_c c \<noteq> None \<and> trim (name c) \<noteq> []) (characters unnamed_scene) = []
           then []
           else lit ''Integrate the characters ''
                  @ join (lit '', '') (map (\<lambda>c. lit ''('' @ trim (name c) @ lit '')'')
                      (filter (\<lambda>c. image_c c \<noteq> None \<and> trim (name c) \<noteq> [])
                         (characters unnamed_scene)))
                  @ lit '' from their reference images.'',
           if filter (\<lambda>c. image_c c \<noteq> None \<and> trim (name c) \<noteq> [])
                (additionalElements unnamed_scene) = []
           then []
           else lit ''Integrate the objects ''
                  @ join (lit '', '') (map (\<lambda>c. lit ''('' @ trim (name c) @ lit '')'')
                      (filter (\<lambda>c. image_c c \<noteq> None \<and> trim (name c) \<noteq> [])
                         (additionalElements unnamed_scene)))
                  @ lit '' from their reference images.'',
           if sceneLocationImage unnamed_scene = None then [] else locationClause])"
    by blast
  then have i: "integrationInstructions unnamed_scene =
       lit ''Integrate the characters (femme) from their reference images.''"
    using h(1,2) n by (simp add: f lit_def)
  from t have "newPrompt unnamed_scene =
      join (lit '' '')
        ([lit ''Generate a cinematic image in a '' @ artisticStyle unnamed_scene @ lit '' style.'']
         @ (if sceneDescription unnamed_scene = [] then []
            else [lit ''The scene is: '' @ sceneDescription unnamed_scene @ lit ''.''])
         @ [lit ''Use a '' @ cameraPerspective unnamed_scene @ lit '' with a ''
              @ aspectRatio unnamed_scene @ lit '' aspect ratio.'',
            lit ''The lighting is '' @ lightingStyle unnamed_scene @ lit ''.'']
         @ (if integrationInstructions unnamed_scene = [] then []
            else [integrationInstructions unnamed_scene])
         @ (if styleImage unnamed_scene = None then [] else [styleClause]))
      @ lit '' '' @ transparencyClause"
    by blast
  then have p: "newPrompt unnamed_scene =
       lit ''Generate a cinematic image in a photorealistic style. Use a eye-level shot with a 16:9 aspect ratio. The lighting is natural morning light. Integrate the characters (femme) from their reference images. '' @ transparencyClause"
    by (simp add: f i lit_def)
  from h(1,2) f(1) i p show ?thesis by simp
qed

section \<open>Properties of the numbers\<close>

text \<open>Unfolding the exponent search on a numeral of steps.\<close>

lemma expo_up_numeral [simp]:
  "expo_up (numeral k) a e = (if 2 \<le> a then expo_up (pred_numeral k) (a / 2) (e + 1) else e)"
  by (simp add: numeral_eq_Suc)

lemma expo_down_numeral [simp]:
  "expo_down (numeral k) a e = (if a < 1 then expo_down (pred_numeral k) (2 * a) (e - 1) else e)"
  by (simp add: numeral_eq_Suc)

lemmas fl_defs = fl_def fl_round_def pow2_def exponent2_def rne_def zero_of_def inf_of_def

lemmas num_defs = js_div_def js_mul_def js_sub_def js_gt_def is_zero_def is_inf_def

lemmas parseFloat_defs = parseFloat_def unsignedLiteral_def is_ws_def is_digit_def
  digits_val_def digit_val_def exponent_def scale10_def lit_def cu_def

text \<open>Some values, as binary64 has them.\<close>

lemma binary64_examples:
  "js_div (Fin 1) (Fin 10) = Fin (3602879701896397 / 36028797018963968)"
  "js_div (Fin 16) (Fin 9) = Fin (2001599834386887 / 1125899906842624)"
  "js_div (Fin 512) (js_div (Fin 1024) (Fin 93)) = Fin (6544293208522751 / 140737488355328)"
  "js_div (Fin 9) (js_div (Fin 18) (Fin 7)) = Fin (7881299347898367 / 2251799813685248)"
  "js_mul (Fin 45) (parseFloat (lit ''0.7'')) = Fin (8866461766385663 / 281474976710656)"
  "js_div (parseFloat (lit ''0.3'')) (parseFloat (lit ''0.1''))
     = Fin (6755399441055743 / 2251799813685248)"
  "js_div (Fin 1) NegZero = NegInf"
  "js_sub (Fin 3) (Fin 3) = Fin 0"
  by (simp_all add: parseFloat_defs) (simp_all add: num_defs fl_defs)

lemma parseFloat_underflow: "parseFloat (lit ''1e-330'') = Fin 0"
  by (simp add: parseFloat_defs fl_defs)

lemma parseFloat_overflow: "parseFloat (lit ''1e400'') = PosInf"
  by (simp add: parseFloat_defs fl_defs)

subsection \<open>The error of rounding\<close>

lemma pow2_pos: "0 < pow2 e"
  by (simp add: pow2_def)

lemma pow2_Suc: "pow2 (e + 1) = 2 * pow2 e"
proof (cases "0 \<le> e")
  case True
  then show ?thesis by (simp add: pow2_def nat_add_distrib)
next
  case False
  then have "nat (- e) = Suc (nat (- (e + 1)))" by simp
  with False show ?thesis by (auto simp: pow2_def)
qed

lemma pow2_pred: "pow2 (e - 1) = pow2 e / 2"
  using pow2_Suc [of "e - 1"] by simp

lemma pow2_sub_nat: "pow2 (e - int n) = pow2 e / 2 ^ n"
proof (induction n)
  case 0
  then show ?case by simp
next
  case (Suc n)
  have "pow2 (e - int (Suc n)) = pow2 ((e - int n) - 1)" by (simp add: algebra_simps)
  also have "\<dots> = pow2 (e - int n) / 2" by (rule pow2_pred)
  finally show ?case using Suc by simp
qed

lemma expo_up_bracket:
  "1 \<le> a \<Longrightarrow> a < 2 ^ Suc n \<Longrightarrow>
     pow2 (expo_up n a e - e) \<le> a \<and> a < 2 * pow2 (expo_up n a e - e)"
proof (induction n arbitrary: a e)
  case 0
  then show ?case by (simp add: pow2_def)
next
  case (Suc n)
  show ?case
  proof (cases "2 \<le> a")
    case True
    have "1 \<le> a / 2" "a / 2 < 2 ^ Suc n" using True Suc.prems by simp_all
    from Suc.IH [OF this, of "e + 1"]
    have "pow2 (expo_up n (a / 2) (e + 1) - e - 1) \<le> a / 2"
      "a / 2 < 2 * pow2 (expo_up n (a / 2) (e + 1) - e - 1)"
      by (simp_all add: algebra_simps)
    then show ?thesis
      using True pow2_pred [of "expo_up n (a / 2) (e + 1) - e"] by simp
  next
    case False
    then show ?thesis using Suc.prems by (simp add: pow2_def)
  qed
qed

lemma expo_down_bracket:
  "1 / 2 ^ n \<le> a \<Longrightarrow> a < 2 \<Longrightarrow>
     pow2 (expo_down n a e - e) \<le> a \<and> a < 2 * pow2 (expo_down n a e - e)"
proof (induction n arbitrary: a e)
  case 0
  then show ?case by (simp add: pow2_def)
next
  case (Suc n)
  show ?case
  proof (cases "a < 1")
    case True
    have "1 / 2 ^ n \<le> 2 * a" "2 * a < 2" using True Suc.prems by (simp_all add: field_simps)
    from Suc.IH [OF this, of "e - 1"]
    have "pow2 (expo_down n (2 * a) (e - 1) - e + 1) \<le> 2 * a"
      "2 * a < 2 * pow2 (expo_down n (2 * a) (e - 1) - e + 1)"
      by (simp_all add: algebra_simps)
    then show ?thesis
      using True pow2_Suc [of "expo_down n (2 * a) (e - 1) - e"] by simp
  next
    case False
    then show ?thesis using Suc.prems by (simp add: pow2_def)
  qed
qed

lemma exponent2_bracket:
  assumes "1 / 2 ^ 1024 \<le> a" "a < 2 ^ 1025"
  shows "pow2 (exponent2 a) \<le> a \<and> a < 2 * pow2 (exponent2 a)"
proof (cases "1 \<le> a")
  case True
  have "a < 2 ^ Suc 1024" using assms(2) by simp
  from expo_up_bracket [OF True this, of 0] True show ?thesis
    by (simp add: exponent2_def del: expo_up_numeral)
next
  case False
  then have "a < 2" by simp
  from expo_down_bracket [OF assms(1) this, of 0] False show ?thesis
    by (simp add: exponent2_def del: expo_down_numeral)
qed

lemma rne_near: "\<bar>real_of_int (rne m) - m\<bar> \<le> 1 / 2"
  unfolding rne_def by (auto; linarith)

text \<open>
  In the normal range the rounded value is finite, positive for a positive argument, and
  off by at most the argument over \<open>2^53\<close>.
\<close>

lemma fl_normal:
  assumes lo: "1 / 2 ^ 1022 \<le> \<bar>x\<bar>" and hi: "\<bar>x\<bar> < 2 ^ 1023"
  shows "\<exists>y. fl x = Fin y \<and> \<bar>y - x\<bar> \<le> \<bar>x\<bar> / 2 ^ 53 \<and> (0 < x \<longrightarrow> 0 < y)"
proof -
  define a where "a = \<bar>x\<bar>"
  define e where "e = exponent2 a"
  define u where "u = pow2 (e - 52)"
  define k where "k = rne (a / u)"
  have l2: "(1::real) / 2 ^ 1024 \<le> 1 / 2 ^ 1022" by simp
  have h2: "(2::real) ^ 1023 < 2 ^ 1025" by simp
  have br: "pow2 e \<le> a" "a < 2 * pow2 e"
    using exponent2_bracket [of a] lo hi l2 h2 unfolding e_def a_def by linarith+
  have upos: "0 < u" by (simp add: u_def pow2_pos)
  have ue: "u = pow2 e / 2 ^ 52" using pow2_sub_nat [of e 52] by (simp add: u_def)
  have big: "2 ^ 52 \<le> a / u"
    using br(1) pow2_pos [of e] by (simp add: ue field_simps)
  have near: "\<bar>real_of_int k - a / u\<bar> \<le> 1 / 2" unfolding k_def by (rule rne_near)
  have kpos: "0 < k"
  proof -
    have "(1::real) \<le> 2 ^ 52 - 1 / 2" by simp
    with big near have "1 \<le> real_of_int k" by linarith
    then show ?thesis by linarith
  qed
  have "real_of_int k * u - a = (real_of_int k - a / u) * u"
    using upos by (simp add: field_simps)
  then have "\<bar>real_of_int k * u - a\<bar> = \<bar>real_of_int k - a / u\<bar> * \<bar>u\<bar>"
    by (simp only: abs_mult)
  then have "\<bar>real_of_int k * u - a\<bar> = \<bar>real_of_int k - a / u\<bar> * u"
    using upos by simp
  also have "\<dots> \<le> 1 / 2 * u" using near upos by (intro mult_right_mono) simp_all
  also have "\<dots> = pow2 e / 2 ^ 53" by (simp add: ue)
  also have "\<dots> \<le> a / 2 ^ 53" using br(1) by (simp add: divide_right_mono)
  finally have err: "\<bar>real_of_int k * u - a\<bar> \<le> a / 2 ^ 53" .
  have notinf: "\<not> 2 ^ 1024 - 2 ^ 970 \<le> a"
  proof -
    have "(2::real) ^ 1023 \<le> 2 ^ 1024 - 2 ^ 970" by simp
    with hi show ?thesis unfolding a_def by linarith
  qed
  have notsub: "\<not> a < pow2 (- 1022)" using lo by (simp add: a_def pow2_def)
  have kne: "k \<noteq> 0" using kpos by simp
  have "fl x = fl_round (x < 0) a (exponent2 a)"
    using notinf notsub by (simp only: fl_def a_def [symmetric] if_False)
  then have fl: "fl x = Fin ((if x < 0 then - 1 else 1) * (real_of_int k * u))"
    using kne by (simp only: fl_round_def k_def u_def e_def if_False)
  show ?thesis
  proof (cases "x < 0")
    case True
    have f: "fl x = Fin (- (real_of_int k * u))" using fl True by simp
    have "\<bar>real_of_int k * u - (- x)\<bar> \<le> (- x) / 2 ^ 53"
      using err True by (simp add: a_def)
    then have "\<bar>- (real_of_int k * u) - x\<bar> \<le> \<bar>x\<bar> / 2 ^ 53"
      using True by linarith
    with f True show ?thesis by auto
  next
    case False
    have f: "fl x = Fin (real_of_int k * u)" using fl False by simp
    have "\<bar>real_of_int k * u - x\<bar> \<le> x / 2 ^ 53"
      using err False by (simp add: a_def)
    then have "\<bar>real_of_int k * u - x\<bar> \<le> \<bar>x\<bar> / 2 ^ 53"
      using False by linarith
    moreover have "0 < real_of_int k * u" using kpos upos by simp
    ultimately show ?thesis using f by auto
  qed
qed

section \<open>Properties of the aspect-ratio parser\<close>

text \<open>The two fallbacks of the parser.\<close>

lemma parseAspectRatio_parts:
  "length (split (cu (CHR '':'')) s) \<noteq> 2 \<Longrightarrow> parseAspectRatio s = js_div (Fin 16) (Fin 9)"
  by (simp add: parseAspectRatio_def)

lemma parseAspectRatio_zero_denominator:
  "is_zero (parseFloat (split (cu (CHR '':'')) s ! 1)) \<Longrightarrow>
     parseAspectRatio s = js_div (Fin 16) (Fin 9)"
  by (simp add: parseAspectRatio_def Let_def)

lemma parseAspectRatio_examples:
  "parseAspectRatio (lit ''abc'') = Fin (2001599834386887 / 1125899906842624)"
  "parseAspectRatio (lit ''16:0'') = Fin (2001599834386887 / 1125899906842624)"
  "parseAspectRatio (lit ''16:-0'') = Fin (2001599834386887 / 1125899906842624)"
  unfolding parseAspectRatio_def Let_def
  by (simp_all add: parseFloat_defs) (simp_all add: num_defs fl_defs)

text \<open>
  C3. The string \<open>a:b\<close> has two parts, neither of which starts with a number:
  \<open>parseFloat\<close> gives NaN for both without throwing, NaN is not \<open>=== 0\<close>, and the
  parser returns NaN / NaN, which is NaN and not the fallback 16 / 9.
\<close>

theorem parseAspectRatio_NaN:
  "parseFloat (lit ''a'') = NaN \<and> parseFloat (lit ''b'') = NaN
   \<and> parseAspectRatio (lit ''a:b'') = NaN
   \<and> parseAspectRatio (lit ''a:b'') \<noteq> js_div (Fin 16) (Fin 9)"
  unfolding parseAspectRatio_def Let_def
  by (simp add: parseFloat_defs) (simp add: num_defs fl_defs)

section \<open>Properties of the canvas geometry\<close>

lemma Math_round_nat: "Math_round (Fin (real n)) = Fin (real n)"
proof -
  have "\<lfloor>real n + 1 / 2\<rfloor> = int n" by linarith
  then show ?thesis by simp
qed

text \<open>\<open>Math.round\<close> of a finite number is an integer within one half of it.\<close>

lemma Math_round_nearest:
  "\<exists>k :: int. val (Math_round (Fin x)) = real_of_int k \<and> \<bar>real_of_int k - x\<bar> \<le> 1 / 2"
proof -
  have "\<bar>real_of_int \<lfloor>x + 1 / 2\<rfloor> - x\<bar> \<le> 1 / 2" by linarith
  then show ?thesis by (intro exI [of _ "\<lfloor>x + 1 / 2\<rfloor>"]) auto
qed

text \<open>A canvas holds an assigned whole number up to 2147483647 as it is.\<close>

lemma canvas_size_nat: "k \<le> 2147483647 \<Longrightarrow> canvas_size d (Fin (real k)) = k"
  by (simp add: canvas_size_def to_unsigned_long_def)

lemma canvas_size_other:
  "canvas_size d NaN = 0" "canvas_size d PosInf = 0" "canvas_size 300 (Fin (- 5)) = 300"
  by (simp_all add: canvas_size_def to_unsigned_long_def)

subsection \<open>Padding\<close>

lemma pad_branches:
  "(js_gt (js_div (Fin (real w)) (Fin (real h))) (parseAspectRatio r) \<longrightarrow>
      assigned_width (handleApply_job w h r) = Fin (real w)
    \<and> assigned_height (handleApply_job w h r)
        = Math_round (js_div (Fin (real w)) (parseAspectRatio r)))
   \<and> (\<not> js_gt (js_div (Fin (real w)) (Fin (real h))) (parseAspectRatio r) \<longrightarrow>
      assigned_height (handleApply_job w h r) = Fin (real h)
    \<and> assigned_width (handleApply_job w h r)
        = Math_round (js_mul (Fin (real h)) (parseAspectRatio r)))"
  by (simp add: handleApply_job_def Let_def Math_round_nat del: Math_round.simps)

lemma pad_canvas:
  "canvas_width (handleApply_job w h r) = canvas_size 300 (assigned_width (handleApply_job w h r))
   \<and> canvas_height (handleApply_job w h r)
       = canvas_size 150 (assigned_height (handleApply_job w h r))"
  by (simp add: handleApply_job_def Let_def)

lemma pad_offsets:
  "draw_x (handleApply_job w h r)
     = js_div (js_sub (Fin (real (canvas_width (handleApply_job w h r)))) (Fin (real w))) (Fin 2)
   \<and> draw_y (handleApply_job w h r)
     = js_div (js_sub (Fin (real (canvas_height (handleApply_job w h r)))) (Fin (real h))) (Fin 2)
   \<and> draw_w (handleApply_job w h r) = Fin (real w)
   \<and> draw_h (handleApply_job w h r) = Fin (real h)
   \<and> out_type (handleApply_job w h r) = lit ''image/png''"
  by (simp add: handleApply_job_def Let_def)

lemma pad_example:
  "handleApply_job 200 100 (lit ''1:1'') =
     \<lparr>assigned_width = Fin 200, assigned_height = Fin 200,
      canvas_width = 200, canvas_height = 200, draw_x = Fin 0, draw_y = Fin 50,
      draw_w = Fin 200, draw_h = Fin 100, out_type = lit ''image/png'', out_quality = Fin 1\<rparr>"
  unfolding handleApply_job_def parseAspectRatio_def Let_def
  apply (simp add: parseFloat_defs)
  apply (simp add: num_defs fl_defs canvas_size_def to_unsigned_long_def)
  done

lemma pad_example_pixels:
  "transparent_at (handleApply_job 200 100 (lit ''1:1'')) px py
     \<longleftrightarrow> (px < 0 \<or> 200 \<le> px \<or> py < 50 \<or> 150 \<le> py)"
  unfolding pad_example by (auto simp: transparent_at_def painted_def)

text \<open>With a ratio that parses to NaN the canvas gets width 0 and the source is drawn at -100.\<close>

lemma pad_NaN_example:
  "canvas_width (handleApply_job 200 100 (lit ''a:b'')) = 0
   \<and> canvas_height (handleApply_job 200 100 (lit ''a:b'')) = 100
   \<and> draw_x (handleApply_job 200 100 (lit ''a:b'')) = Fin (- 100)"
  unfolding handleApply_job_def parseAspectRatio_def Let_def
  apply (simp add: parseFloat_defs)
  apply (simp add: num_defs fl_defs canvas_size_def to_unsigned_long_def)
  done

lemma pad_binary64_example:
  "canvas_height (handleApply_job 9 1 (lit ''18:7'')) = 3"
  unfolding handleApply_job_def parseAspectRatio_def Let_def
  apply (simp add: parseFloat_defs)
  apply (simp add: num_defs fl_defs canvas_size_def to_unsigned_long_def)
  done

text \<open>
  C5. Padding compares the source's ratio with the parsed target. When the source is
  strictly wider, the new width is the source's width and the new height the width divided
  by the target; otherwise the new height is the source's height and the new width the
  height times the target. Both are rounded by \<open>Math.round\<close>, to an integer within one
  half, and assigned to the canvas, which holds a whole number up to 2147483647 as it is.
  The source is drawn in its own size at half the difference between canvas and source
  on each axis, and the output is PNG. A 200 by 100 source padded to \<open>1:1\<close> gives a 200
  by 200 canvas with the source at (0, 50); the pixels that stay transparent are exactly
  the rows above 50 and from 150 on.
\<close>

theorem pad_to_aspect_ratio:
  "(js_gt (js_div (Fin (real w)) (Fin (real h))) (parseAspectRatio r) \<longrightarrow>
        assigned_width (handleApply_job w h r) = Fin (real w)
      \<and> assigned_height (handleApply_job w h r)
          = Math_round (js_div (Fin (real w)) (parseAspectRatio r)))
   \<and> (\<not> js_gt (js_div (Fin (real w)) (Fin (real h))) (parseAspectRatio r) \<longrightarrow>
        assigned_height (handleApply_job w h r) = Fin (real h)
      \<and> assigned_width (handleApply_job w h r)
          = Math_round (js_mul (Fin (real h)) (parseAspectRatio r)))
   \<and> (\<forall>x. \<exists>k :: int. val (Math_round (Fin x)) = real_of_int k \<and> \<bar>real_of_int k - x\<bar> \<le> 1 / 2)
   \<and> canvas_width (handleApply_job w h r)
       = canvas_size 300 (assigned_width (handleApply_job w h r))
   \<and> canvas_height (handleApply_job w h r)
       = canvas_size 150 (assigned_height (handleApply_job w h r))
   \<and> (\<forall>k. assigned_width (handleApply_job w h r) = Fin (real k) \<and> k \<le> 2147483647
          \<longrightarrow> canvas_width (handleApply_job w h r) = k)
   \<and> (\<forall>k. assigned_height (handleApply_job w h r) = Fin (real k) \<and> k \<le> 2147483647
          \<longrightarrow> canvas_height (handleApply_job w h r) = k)
   \<and> draw_x (handleApply_job w h r)
       = js_div (js_sub (Fin (real (canvas_width (handleApply_job w h r)))) (Fin (real w)))
           (Fin 2)
   \<and> draw_y (handleApply_job w h r)
       = js_div (js_sub (Fin (real (canvas_height (handleApply_job w h r)))) (Fin (real h)))
           (Fin 2)
   \<and> draw_w (handleApply_job w h r) = Fin (real w)
   \<and> draw_h (handleApply_job w h r) = Fin (real h)
   \<and> out_type (handleApply_job w h r) = lit ''image/png''
   \<and> handleApply_job 200 100 (lit ''1:1'') =
       \<lparr>assigned_width = Fin 200, assigned_height = Fin 200,
        canvas_width = 200, canvas_height = 200, draw_x = Fin 0, draw_y = Fin 50,
        draw_w = Fin 200, draw_h = Fin 100, out_type = lit ''image/png'', out_quality = Fin 1\<rparr>
   \<and> (\<forall>px py. transparent_at (handleApply_job 200 100 (lit ''1:1'')) px py
          \<longleftrightarrow> (px < 0 \<or> 200 \<le> px \<or> py < 50 \<or> 150 \<le> py))"
proof -
  have n: "\<forall>x. \<exists>k :: int. val (Math_round (Fin x)) = real_of_int k \<and> \<bar>real_of_int k - x\<bar> \<le> 1 / 2"
    using Math_round_nearest by blast
  have cw: "\<forall>k. assigned_width (handleApply_job w h r) = Fin (real k) \<and> k \<le> 2147483647
          \<longrightarrow> canvas_width (handleApply_job w h r) = k"
    using pad_canvas [of w h r] by (auto simp: canvas_size_nat)
  have ch: "\<forall>k. assigned_height (handleApply_job w h r) = Fin (real k) \<and> k \<le> 2147483647
          \<longrightarrow> canvas_height (handleApply_job w h r) = k"
    using pad_canvas [of w h r] by (auto simp: canvas_size_nat)
  from pad_branches [of w h r] n pad_canvas [of w h r] cw ch pad_offsets [of w h r]
    pad_example pad_example_pixels
  show ?thesis by (intro conjI) blast+
qed

theorem pad_to_aspect_ratio_witness:
  "js_gt (js_div (Fin (real (1920::nat))) (Fin (real (1080::nat)))) (parseAspectRatio (lit ''4:3''))
   \<and> assigned_height (handleApply_job 1920 1080 (lit ''4:3'')) = Fin (real (1440::nat))
   \<and> (1440::nat) \<le> 2147483647
   \<and> canvas_width (handleApply_job 1920 1080 (lit ''4:3'')) = 1920
   \<and> canvas_height (handleApply_job 1920 1080 (lit ''4:3'')) = 1440
   \<and> draw_x (handleApply_job 1920 1080 (lit ''4:3'')) = Fin 0
   \<and> draw_y (handleApply_job 1920 1080 (lit ''4:3'')) = Fin 180"
proof -
  have p: "parseAspectRatio (lit ''4:3'') = Fin (6004799503160661 / 4503599627370496)"
    unfolding parseAspectRatio_def Let_def
    by (simp add: parseFloat_defs) (simp add: num_defs fl_defs)
  have g: "js_gt (js_div (Fin (real (1920::nat))) (Fin (real (1080::nat))))
             (parseAspectRatio (lit ''4:3''))"
    unfolding p by (simp add: num_defs fl_defs)
  have d: "Math_round (js_div (Fin (real (1920::nat))) (parseAspectRatio (lit ''4:3'')))
             = Fin (real (1440::nat))"
    unfolding p by (simp add: num_defs fl_defs)
  have le: "(1440::nat) \<le> 2147483647" "(1920::nat) \<le> 2147483647" by simp_all
  note t = pad_to_aspect_ratio [where w = 1920 and h = 1080 and r = "lit ''4:3''"]
  from t g have "assigned_height (handleApply_job 1920 1080 (lit ''4:3''))
      = Math_round (js_div (Fin (real (1920::nat))) (parseAspectRatio (lit ''4:3'')))"
    and aw: "assigned_width (handleApply_job 1920 1080 (lit ''4:3'')) = Fin (real (1920::nat))"
    by blast+
  then have ah: "assigned_height (handleApply_job 1920 1080 (lit ''4:3''))
      = Fin (real (1440::nat))"
    by (simp only: d)
  from t ah le(1) have ch: "canvas_height (handleApply_job 1920 1080 (lit ''4:3'')) = 1440"
    by blast
  from t aw le(2) have cw: "canvas_width (handleApply_job 1920 1080 (lit ''4:3'')) = 1920"
    by blast
  from t have "draw_x (handleApply_job 1920 1080 (lit ''4:3''))
       = js_div (js_sub (Fin (real (canvas_width (handleApply_job 1920 1080 (lit ''4:3'')))))
           (Fin (real (1920::nat)))) (Fin 2)"
    and "draw_y (handleApply_job 1920 1080 (lit ''4:3''))
       = js_div (js_sub (Fin (real (canvas_height (handleApply_job 1920 1080 (lit ''4:3'')))))
           (Fin (real (1080::nat)))) (Fin 2)"
    by blast+
  then have dx: "draw_x (handleApply_job 1920 1080 (lit ''4:3'')) = Fin 0"
    and dy: "draw_y (handleApply_job 1920 1080 (lit ''4:3'')) = Fin 180"
    unfolding cw ch by (simp_all add: num_defs fl_defs)
  from g ah le(1) cw ch dx dy show ?thesis by (intro conjI)
qed

subsection \<open>A source that already has the target ratio\<close>

text \<open>
  Dividing the width by the height and multiplying the quotient by the height gives the
  width again, up to a rounding error that \<open>Math.round\<close> removes.
\<close>

lemma ratio_round_trip:
  assumes "0 < w" "0 < h" "w \<le> 2147483647" "h \<le> 2147483647"
  shows "Math_round (js_mul (Fin (real h)) (js_div (Fin (real w)) (Fin (real h))))
           = Fin (real w)"
proof -
  define x1 where "x1 = real w / real h"
  have wr: "1 \<le> real w" "real w \<le> 2147483647" "1 \<le> real h" "real h \<le> 2147483647"
    using assms by simp_all
  have x1lo: "1 / 2147483647 \<le> x1"
    unfolding x1_def using wr by (simp add: frac_le)
  have x1hi: "x1 \<le> 2147483647"
    unfolding x1_def using wr by (simp add: field_simps)
  have x1pos: "0 < x1" using x1lo by linarith
  have "(1::real) / 2 ^ 1022 \<le> 1 / 2147483647" by simp
  with x1lo x1pos have lo1: "1 / 2 ^ 1022 \<le> \<bar>x1\<bar>" by linarith
  have "(2147483647::real) < 2 ^ 1023" by simp
  with x1hi x1pos have hi1: "\<bar>x1\<bar> < 2 ^ 1023" by linarith
  from fl_normal [OF lo1 hi1] x1pos obtain y1 where
    y1: "fl x1 = Fin y1" "\<bar>y1 - x1\<bar> \<le> x1 / 2 ^ 53" "0 < y1" by auto
  have d: "js_div (Fin (real w)) (Fin (real h)) = Fin y1"
    using assms(1,2) y1(1) by (simp add: js_div_def is_zero_def is_inf_def x1_def)
  define x2 where "x2 = real h * y1"
  have hx: "real h * x1 = real w" using assms(2) by (simp add: x1_def)
  have "\<bar>x2 - real w\<bar> = real h * \<bar>y1 - x1\<bar>"
    unfolding x2_def hx [symmetric] using wr(3)
    by (simp add: right_diff_distrib [symmetric] abs_mult)
  also have "\<dots> \<le> real h * (x1 / 2 ^ 53)"
    using y1(2) wr(3) by (intro mult_left_mono) simp_all
  also have "\<dots> = real w / 2 ^ 53" using hx by simp
  finally have e2: "\<bar>x2 - real w\<bar> \<le> real w / 2 ^ 53" .
  have x2pos: "0 < x2" unfolding x2_def using y1(3) wr(3) by simp
  have e2': "\<bar>x2 - real w\<bar> \<le> real w / 9007199254740992" using e2 by simp
  have x2lo: "1 / 2 \<le> x2" using e2' wr(1,2) by linarith
  have x2hi: "x2 \<le> 4294967296" using e2' wr(1,2) by linarith
  have "(1::real) / 2 ^ 1022 \<le> 1 / 2" by simp
  with x2lo x2pos have lo2: "1 / 2 ^ 1022 \<le> \<bar>x2\<bar>" by linarith
  have "(4294967296::real) < 2 ^ 1023" by simp
  with x2hi x2pos have hi2: "\<bar>x2\<bar> < 2 ^ 1023" by linarith
  from fl_normal [OF lo2 hi2] x2pos obtain y2 where
    y2: "fl x2 = Fin y2" "\<bar>y2 - x2\<bar> \<le> x2 / 2 ^ 53" "0 < y2" by auto
  have m: "js_mul (Fin (real h)) (Fin y1) = Fin y2"
    using assms(2) y1(3) y2(1) by (simp add: js_mul_def is_zero_def is_inf_def x2_def)
  have "\<bar>y2 - real w\<bar> \<le> x2 / 2 ^ 53 + real w / 2 ^ 53" using y2(2) e2 by linarith
  also have "\<dots> \<le> 4294967296 / 2 ^ 53 + 2147483647 / 2 ^ 53"
    using x2hi wr(2) by (intro add_mono divide_right_mono) simp_all
  also have "\<dots> < 1 / 2" by simp
  finally have near: "\<bar>y2 - real w\<bar> < 1 / 2" .
  then have "\<lfloor>y2 + 1 / 2\<rfloor> = int w" by linarith
  then have "Math_round (Fin y2) = Fin (real w)" using y2(3) by simp
  with d m show ?thesis by simp
qed

text \<open>
  C10. Let the parsed target be the source's width over its height, as JavaScript
  divides them, for a source that a canvas can hold. Then the comparison is false, so the
  branch that keeps the height is taken; the canvas has the source's size, both offsets
  are 0, and every pixel of the canvas is covered by the drawn source: no padding is added.
\<close>

theorem pad_same_ratio_identity:
  assumes "0 < w" and "0 < h" and "w \<le> 2147483647" and "h \<le> 2147483647"
    and "parseAspectRatio r = js_div (Fin (real w)) (Fin (real h))"
  shows "\<not> js_gt (js_div (Fin (real w)) (Fin (real h))) (parseAspectRatio r)
    \<and> handleApply_job w h r =
         \<lparr>assigned_width = Fin (real w), assigned_height = Fin (real h),
          canvas_width = w, canvas_height = h,
          draw_x = Fin 0, draw_y = Fin 0, draw_w = Fin (real w), draw_h = Fin (real h),
          out_type = lit ''image/png'', out_quality = Fin 1\<rparr>
    \<and> (\<forall>px py. 0 \<le> px \<and> px < int w \<and> 0 \<le> py \<and> py < int h
          \<longrightarrow> \<not> transparent_at (handleApply_job w h r) px py)"
proof -
  have a: "\<not> js_gt (js_div (Fin (real w)) (Fin (real h))) (parseAspectRatio r)"
    unfolding assms(5) by (simp add: js_gt_def)
  have rt: "Math_round (js_mul (Fin (real h)) (parseAspectRatio r)) = Fin (real w)"
    unfolding assms(5) using assms(1-4) by (rule ratio_round_trip)
  have z: "js_div (js_sub (Fin (real w)) (Fin (real w))) (Fin 2) = Fin 0"
    "js_div (js_sub (Fin (real h)) (Fin (real h))) (Fin 2) = Fin 0"
    by (simp_all add: num_defs zero_of_def)
  have b: "handleApply_job w h r =
         \<lparr>assigned_width = Fin (real w), assigned_height = Fin (real h),
          canvas_width = w, canvas_height = h,
          draw_x = Fin 0, draw_y = Fin 0, draw_w = Fin (real w), draw_h = Fin (real h),
          out_type = lit ''image/png'', out_quality = Fin 1\<rparr>"
    using a rt z assms(3,4)
    by (simp add: handleApply_job_def Let_def Math_round_nat canvas_size_nat
        del: Math_round.simps)
  have c: "\<forall>px py. 0 \<le> px \<and> px < int w \<and> 0 \<le> py \<and> py < int h
          \<longrightarrow> \<not> transparent_at (handleApply_job w h r) px py"
    unfolding b by (auto simp: transparent_at_def painted_def)
  from a b c show ?thesis by blast
qed

theorem pad_same_ratio_identity_witness:
  "(0::nat) < 1920 \<and> (0::nat) < 1080 \<and> (1920::nat) \<le> 2147483647 \<and> (1080::nat) \<le> 2147483647
   \<and> parseAspectRatio (lit ''16:9'') = js_div (Fin (real (1920::nat))) (Fin (real (1080::nat)))
   \<and> handleApply_job 1920 1080 (lit ''16:9'') =
         \<lparr>assigned_width = Fin 1920, assigned_height = Fin 1080,
          canvas_width = 1920, canvas_height = 1080,
          draw_x = Fin 0, draw_y = Fin 0, draw_w = Fin 1920, draw_h = Fin 1080,
          out_type = lit ''image/png'', out_quality = Fin 1\<rparr>"
proof -
  have p: "parseAspectRatio (lit ''16:9'')
             = js_div (Fin (real (1920::nat))) (Fin (real (1080::nat)))"
    unfolding parseAspectRatio_def Let_def
    by (simp add: parseFloat_defs) (simp add: num_defs fl_defs)
  have h: "(0::nat) < 1920" "(0::nat) < 1080" "(1920::nat) \<le> 2147483647"
    "(1080::nat) \<le> 2147483647" by simp_all
  from pad_same_ratio_identity [OF h p] p h show ?thesis
    by simp
qed

subsection \<open>Resizing\<close>

lemma resize_branches:
  "(h < w \<longrightarrow>
      draw_w (resize_job w h t url) = t
    \<and> draw_h (resize_job w h t url) = js_div t (js_div (Fin (real w)) (Fin (real h))))
   \<and> (\<not> h < w \<longrightarrow>
      draw_h (resize_job w h t url) = t
    \<and> draw_w (resize_job w h t url) = js_mul t (js_div (Fin (real w)) (Fin (real h))))
   \<and> assigned_width (resize_job w h t url) = Math_round (draw_w (resize_job w h t url))
   \<and> assigned_height (resize_job w h t url) = Math_round (draw_h (resize_job w h t url))
   \<and> canvas_width (resize_job w h t url)
       = canvas_size 300 (assigned_width (resize_job w h t url))
   \<and> canvas_height (resize_job w h t url)
       = canvas_size 150 (assigned_height (resize_job w h t url))"
  by (simp add: resize_job_def Let_def del: Math_round.simps)

lemma resize_example:
  "canvas_width (resize_job 1000 500 (Fin 250) url) = 250
   \<and> canvas_height (resize_job 1000 500 (Fin 250) url) = 125"
  unfolding resize_job_def Let_def
  by (simp add: num_defs fl_defs canvas_size_def to_unsigned_long_def)

text \<open>
  The size kept in the history for a 1024 by 93 result: the quotient is just below
  46.5 in binary64, so the height is 46.
\<close>

lemma resize_history_example:
  "canvas_width (resize_job 1024 93 HISTORY_IMAGE_SIZE url) = 512
   \<and> canvas_height (resize_job 1024 93 HISTORY_IMAGE_SIZE url) = 46"
  unfolding resize_job_def Let_def HISTORY_IMAGE_SIZE_def
  by (simp add: num_defs fl_defs canvas_size_def to_unsigned_long_def)

text \<open>
  C6. For natural dimensions \<open>w\<close> by \<open>h\<close> and a target \<open>t\<close>: when \<open>w > h\<close> the new width
  is the target and the new height the target divided by \<open>w / h\<close>; otherwise the new
  height is the target and the new width the target times \<open>w / h\<close>. Both are rounded by
  \<open>Math.round\<close>, to an integer within one half, and assigned to the canvas, which holds a
  whole number up to 2147483647 as it is; so for a target of \<open>n\<close> whole pixels the side
  that takes the target is exactly \<open>n\<close>. A 1000 by 500 source with target 250 gives a
  250 by 125 canvas.
\<close>

theorem resize_to_longest_side:
  "(h < w \<longrightarrow>
        draw_w (resize_job w h t url) = t
      \<and> draw_h (resize_job w h t url) = js_div t (js_div (Fin (real w)) (Fin (real h))))
   \<and> (\<not> h < w \<longrightarrow>
        draw_h (resize_job w h t url) = t
      \<and> draw_w (resize_job w h t url) = js_mul t (js_div (Fin (real w)) (Fin (real h))))
   \<and> assigned_width (resize_job w h t url) = Math_round (draw_w (resize_job w h t url))
   \<and> assigned_height (resize_job w h t url) = Math_round (draw_h (resize_job w h t url))
   \<and> (\<forall>x. \<exists>k :: int. val (Math_round (Fin x)) = real_of_int k \<and> \<bar>real_of_int k - x\<bar> \<le> 1 / 2)
   \<and> canvas_width (resize_job w h t url)
       = canvas_size 300 (assigned_width (resize_job w h t url))
   \<and> canvas_height (resize_job w h t url)
       = canvas_size 150 (assigned_height (resize_job w h t url))
   \<and> (\<forall>k. assigned_width (resize_job w h t url) = Fin (real k) \<and> k \<le> 2147483647
          \<longrightarrow> canvas_width (resize_job w h t url) = k)
   \<and> (\<forall>k. assigned_height (resize_job w h t url) = Fin (real k) \<and> k \<le> 2147483647
          \<longrightarrow> canvas_height (resize_job w h t url) = k)
   \<and> (h < w \<and> n \<le> 2147483647 \<longrightarrow> canvas_width (resize_job w h (Fin (real n)) url) = n)
   \<and> (\<not> h < w \<and> n \<le> 2147483647 \<longrightarrow> canvas_height (resize_job w h (Fin (real n)) url) = n)
   \<and> canvas_width (resize_job 1000 500 (Fin 250) url) = 250
   \<and> canvas_height (resize_job 1000 500 (Fin 250) url) = 125"
proof -
  note b = resize_branches [of h w t url]
  have n: "\<forall>x. \<exists>k :: int. val (Math_round (Fin x)) = real_of_int k \<and> \<bar>real_of_int k - x\<bar> \<le> 1 / 2"
    using Math_round_nearest by blast
  have cw: "\<forall>k. assigned_width (resize_job w h t url) = Fin (real k) \<and> k \<le> 2147483647
          \<longrightarrow> canvas_width (resize_job w h t url) = k"
    using b by (auto simp: canvas_size_nat)
  have ch: "\<forall>k. assigned_height (resize_job w h t url) = Fin (real k) \<and> k \<le> 2147483647
          \<longrightarrow> canvas_height (resize_job w h t url) = k"
    using b by (auto simp: canvas_size_nat)
  have tw: "h < w \<and> n \<le> 2147483647 \<longrightarrow> canvas_width (resize_job w h (Fin (real n)) url) = n"
    using resize_branches [of h w "Fin (real n)" url]
    by (auto simp: canvas_size_nat Math_round_nat simp del: Math_round.simps)
  have th: "\<not> h < w \<and> n \<le> 2147483647 \<longrightarrow> canvas_height (resize_job w h (Fin (real n)) url) = n"
    using resize_branches [of h w "Fin (real n)" url]
    by (auto simp: canvas_size_nat Math_round_nat simp del: Math_round.simps)
  from b n cw ch tw th resize_example [of url]
  show ?thesis by (intro conjI) blast+
qed

theorem resize_to_longest_side_witness:
  "\<not> (4::nat) < 3 \<and> (512::nat) \<le> 2147483647
   \<and> canvas_height (resize_job 3 4 (Fin (real (512::nat))) (lit ''data:image/png;base64,AAAA''))
       = 512
   \<and> assigned_width (resize_job 3 4 (Fin (real (512::nat))) (lit ''data:image/png;base64,AAAA''))
       = Fin (real (384::nat))
   \<and> (384::nat) \<le> 2147483647
   \<and> canvas_width (resize_job 3 4 (Fin (real (512::nat))) (lit ''data:image/png;base64,AAAA''))
       = 384"
proof -
  have h: "\<not> (4::nat) < 3" "(512::nat) \<le> 2147483647" "(384::nat) \<le> 2147483647"
    by simp_all
  have m: "Math_round (js_mul (Fin (real (512::nat))) (js_div (Fin (real (3::nat)))
             (Fin (real (4::nat))))) = Fin (real (384::nat))"
    by (simp add: num_defs fl_defs)
  note t = resize_to_longest_side [where w = 3 and h = 4 and n = 512
      and t = "Fin (real (512::nat))" and url = "lit ''data:image/png;base64,AAAA''"]
  from t h(1,2) have ch: "canvas_height (resize_job 3 4 (Fin (real (512::nat)))
      (lit ''data:image/png;base64,AAAA'')) = 512"
    by blast
  from t h(1) have "assigned_width (resize_job 3 4 (Fin (real (512::nat)))
        (lit ''data:image/png;base64,AAAA''))
      = Math_round (draw_w (resize_job 3 4 (Fin (real (512::nat)))
          (lit ''data:image/png;base64,AAAA'')))"
    and "draw_w (resize_job 3 4 (Fin (real (512::nat))) (lit ''data:image/png;base64,AAAA''))
      = js_mul (Fin (real (512::nat))) (js_div (Fin (real (3::nat))) (Fin (real (4::nat))))"
    by blast+
  then have aw: "assigned_width (resize_job 3 4 (Fin (real (512::nat)))
        (lit ''data:image/png;base64,AAAA'')) = Fin (real (384::nat))"
    by (simp only: m)
  from t aw h(3) have cw: "canvas_width (resize_job 3 4 (Fin (real (512::nat)))
      (lit ''data:image/png;base64,AAAA'')) = 384"
    by blast
  from h ch aw cw show ?thesis by (intro conjI)
qed

subsection \<open>The encoding of the resized image\<close>

lemma split_nonempty: "split sep s \<noteq> []"
  by (induction s) (auto split: list.splits)

lemma split_head: "sep \<notin> set p \<Longrightarrow> split sep (p @ sep # d) = p # split sep d"
  by (induction p) (auto split: list.splits simp: split_nonempty)

lemma jpeg_url_type:
  "url_type (lit ''data:image/jpeg;base64,'' @ d) = Some (lit ''image/jpeg'')"
proof -
  have "split (cu (CHR '','')) (lit ''data:image/jpeg;base64'' @ cu (CHR '','') # d)
          = lit ''data:image/jpeg;base64'' # split (cu (CHR '','')) d"
    by (rule split_head) (simp add: lit_def cu_def)
  moreover have "lit ''data:image/jpeg;base64,'' @ d
      = lit ''data:image/jpeg;base64'' @ cu (CHR '','') # d"
    by (simp add: lit_def cu_def)
  moreover have "match_mime (lit ''data:image/jpeg;base64'') = Some (lit ''image/jpeg'')"
    by (simp add: upto_semicolon_def is_line_terminator_def lit_def cu_def)
  ultimately show ?thesis
    by (simp add: url_type_def parseDataUrl_def)
qed

lemma png_url_type:
  "url_type (lit ''data:image/png;base64,'' @ d) = Some (lit ''image/png'')"
proof -
  have "split (cu (CHR '','')) (lit ''data:image/png;base64'' @ cu (CHR '','') # d)
          = lit ''data:image/png;base64'' # split (cu (CHR '','')) d"
    by (rule split_head) (simp add: lit_def cu_def)
  moreover have "lit ''data:image/png;base64,'' @ d
      = lit ''data:image/png;base64'' @ cu (CHR '','') # d"
    by (simp add: lit_def cu_def)
  moreover have "match_mime (lit ''data:image/png;base64'') = Some (lit ''image/png'')"
    by (simp add: upto_semicolon_def is_line_terminator_def lit_def cu_def)
  ultimately show ?thesis
    by (simp add: url_type_def parseDataUrl_def)
qed

lemma jpeg_data_kept:
  "resize_mimeType (lit ''data:image/jpeg;base64,'' @ d) = lit ''image/jpeg''"
  by (simp add: resize_mimeType_def lit_def)

lemma png_data_kept:
  "resize_mimeType (lit ''data:image/png;base64,'' @ d) = lit ''image/png''"
  by (simp add: resize_mimeType_def lit_def)

text \<open>
  C7 as amended. \<open>resizeImage\<close> encodes at quality 1.0, as JPEG when the URL starts
  with \<open>data:image/jpeg\<close> and as PNG for every other input: a JPEG data URL stays lossy
  and a PNG data URL stays alpha-capable, whatever the payload.
\<close>

theorem resize_output_type:
  "out_type (resize_job w h t url) = resize_mimeType url
   \<and> out_quality (resize_job w h t url) = Fin 1
   \<and> (startsWith url (lit ''data:image/jpeg'') \<longrightarrow> resize_mimeType url = lit ''image/jpeg'')
   \<and> (\<not> startsWith url (lit ''data:image/jpeg'') \<longrightarrow> resize_mimeType url = lit ''image/png'')
   \<and> family_preserved (lit ''data:image/jpeg;base64,'' @ d)
   \<and> family_preserved (lit ''data:image/png;base64,'' @ d)"
proof -
  have a: "out_type (resize_job w h t url) = resize_mimeType url
     \<and> out_quality (resize_job w h t url) = Fin 1"
    by (simp add: resize_job_def Let_def)
  have b: "(startsWith url (lit ''data:image/jpeg'') \<longrightarrow> resize_mimeType url = lit ''image/jpeg'')
   \<and> (\<not> startsWith url (lit ''data:image/jpeg'') \<longrightarrow> resize_mimeType url = lit ''image/png'')"
    by (simp add: resize_mimeType_def)
  have c: "family_preserved (lit ''data:image/jpeg;base64,'' @ d)"
    unfolding family_preserved_def jpeg_url_type jpeg_data_kept
    by (simp add: lossy_type_def alpha_type_def)
  have e: "family_preserved (lit ''data:image/png;base64,'' @ d)"
    unfolding family_preserved_def png_url_type png_data_kept
    by (simp add: lossy_type_def alpha_type_def)
  from a b c e show ?thesis by blast
qed

theorem resize_output_type_witness:
  "\<not> startsWith (lit ''data:image/gif;base64,R0lG'') (lit ''data:image/jpeg'')
   \<and> out_type (resize_job 10 10 (Fin 5) (lit ''data:image/gif;base64,R0lG'')) = lit ''image/png''
   \<and> out_quality (resize_job 10 10 (Fin 5) (lit ''data:image/gif;base64,R0lG'')) = Fin 1"
proof -
  have n: "\<not> startsWith (lit ''data:image/gif;base64,R0lG'') (lit ''data:image/jpeg'')"
    by (simp add: lit_def)
  from resize_output_type [of 10 10 "Fin 5" "lit ''data:image/gif;base64,R0lG''" "[]"] n
  show ?thesis by simp
qed

text \<open>
  C7 as stated fails for a WebP data URL: the input is of a lossy type, the output is
  PNG, which is not.
\<close>

theorem webp_family_changed:
  "url_type (lit ''data:image/webp;base64,UklGRg=='') = Some (lit ''image/webp'')
   \<and> lossy_type (lit ''image/webp'')
   \<and> resize_mimeType (lit ''data:image/webp;base64,UklGRg=='') = lit ''image/png''
   \<and> \<not> lossy_type (lit ''image/png'')
   \<and> \<not> family_preserved (lit ''data:image/webp;base64,UklGRg=='')"
  by (simp add: family_preserved_def url_type_def parseDataUrl_def upto_semicolon_def
      is_line_terminator_def lossy_type_def alpha_type_def resize_mimeType_def lit_def cu_def)

section \<open>Properties of the history\<close>

lemma add_cases:
  "handleAddToHistory b now_id now_created url p t prev = prev
   \<or> (\<exists>img. handleAddToHistory b now_id now_created url p t prev =
         take MAX_HISTORY_ITEMS (newHistoryItem t now_id img p now_created # prev))"
  by (auto simp: handleAddToHistory_def split: sum.splits)

lemma add_success:
  assumes "resizeImage b url HISTORY_IMAGE_SIZE = Inr r" "parseDataUrl r = Inr img"
  shows "handleAddToHistory b now_id now_created url p t prev =
     take MAX_HISTORY_ITEMS (newHistoryItem t now_id img p now_created # prev)"
  using assms by (simp add: handleAddToHistory_def)

lemma add_length:
  "length prev \<le> MAX_HISTORY_ITEMS \<Longrightarrow>
   length (handleAddToHistory b now_id now_created url p t prev) \<le> MAX_HISTORY_ITEMS"
  using add_cases [of b now_id now_created url p t prev] by auto

lemma add_newest_first:
  assumes "newest_first prev" "\<forall>x\<in>set prev. createdAt x \<le> now_created"
  shows "newest_first (handleAddToHistory b now_id now_created url p t prev)"
proof -
  have "newest_first (newHistoryItem t now_id img p now_created # prev)" for img
    using assms by (simp add: newest_first_def newHistoryItem_def)
  then have "newest_first (take MAX_HISTORY_ITEMS
     (newHistoryItem t now_id img p now_created # prev))" for img
    unfolding newest_first_def by (rule sorted_wrt_take)
  with assms(1) add_cases [of b now_id now_created url p t prev] show ?thesis by auto
qed

lemma newest_first_last:
  "newest_first h \<Longrightarrow> x \<in> set h \<Longrightarrow> createdAt (last h) \<le> createdAt x"
  by (induction h) (auto simp: newest_first_def)

lemma take_full: "length xs = MAX_HISTORY_ITEMS \<Longrightarrow> take MAX_HISTORY_ITEMS (x # xs) = x # butlast xs"
  by (simp add: MAX_HISTORY_ITEMS_def butlast_conv_take)

lemma delete_inv:
  "length prev \<le> MAX_HISTORY_ITEMS \<Longrightarrow> length (handleDeleteFromHistory i prev) \<le> MAX_HISTORY_ITEMS"
  "newest_first prev \<Longrightarrow> newest_first (handleDeleteFromHistory i prev)"
  by (auto simp: handleDeleteFromHistory_def newest_first_def sorted_wrt_filter
      intro: le_trans [OF length_filter_le])

lemma clear_inv:
  "length prev \<le> MAX_HISTORY_ITEMS \<Longrightarrow> length (handleClearHistory c prev) \<le> MAX_HISTORY_ITEMS"
  "newest_first prev \<Longrightarrow> newest_first (handleClearHistory c prev)"
  by (auto simp: handleClearHistory_def newest_first_def)

lemma sample_resize:
  "resizeImage sample_browser (lit ''data:image/png;base64,QUJD'') HISTORY_IMAGE_SIZE
     = Inr (lit ''data:image/png;base64,AAAA'')"
  by (simp add: resizeImage_def sample_browser_def resize_job_def Let_def resize_mimeType_def
      lit_def)

lemma sample_parse: "parseDataUrl (lit ''data:image/png;base64,AAAA'') = Inr sample_image"
  by (simp add: parseDataUrl_def upto_semicolon_def is_line_terminator_def sample_image_def
      lit_def cu_def)

text \<open>
  C8. A history of at most ten items, newest first, stays so under every mutation:
  adding (when the clock has not gone back behind an item of the history), deleting and
  clearing. An addition whose image resizes and parses puts the new item in front and
  keeps the first ten entries; on a history of ten it keeps all but the last one, which
  is the oldest, and the result has ten items again. The cap is 10.
\<close>

theorem history_bounded_newest_first:
  assumes "length prev \<le> MAX_HISTORY_ITEMS" and "newest_first prev"
    and "\<forall>x\<in>set prev. createdAt x \<le> now_created"
  shows "length (handleAddToHistory b now_id now_created url p t prev) \<le> MAX_HISTORY_ITEMS
    \<and> newest_first (handleAddToHistory b now_id now_created url p t prev)
    \<and> length (handleDeleteFromHistory i prev) \<le> MAX_HISTORY_ITEMS
    \<and> newest_first (handleDeleteFromHistory i prev)
    \<and> length (handleClearHistory c prev) \<le> MAX_HISTORY_ITEMS
    \<and> newest_first (handleClearHistory c prev)
    \<and> (\<forall>r img. resizeImage b url HISTORY_IMAGE_SIZE = Inr r \<and> parseDataUrl r = Inr img \<longrightarrow>
          handleAddToHistory b now_id now_created url p t prev
            = take MAX_HISTORY_ITEMS (newHistoryItem t now_id img p now_created # prev)
        \<and> (length prev = MAX_HISTORY_ITEMS \<longrightarrow>
              handleAddToHistory b now_id now_created url p t prev
                = newHistoryItem t now_id img p now_created # butlast prev
            \<and> length (handleAddToHistory b now_id now_created url p t prev) = MAX_HISTORY_ITEMS
            \<and> (\<forall>x\<in>set prev. createdAt (last prev) \<le> createdAt x)))
    \<and> MAX_HISTORY_ITEMS = 10"
proof -
  have s: "\<forall>r img. resizeImage b url HISTORY_IMAGE_SIZE = Inr r \<and> parseDataUrl r = Inr img \<longrightarrow>
          handleAddToHistory b now_id now_created url p t prev
            = take MAX_HISTORY_ITEMS (newHistoryItem t now_id img p now_created # prev)
        \<and> (length prev = MAX_HISTORY_ITEMS \<longrightarrow>
              handleAddToHistory b now_id now_created url p t prev
                = newHistoryItem t now_id img p now_created # butlast prev
            \<and> length (handleAddToHistory b now_id now_created url p t prev) = MAX_HISTORY_ITEMS
            \<and> (\<forall>x\<in>set prev. createdAt (last prev) \<le> createdAt x))"
  proof (intro allI impI, elim conjE)
    fix r img
    assume ok: "resizeImage b url HISTORY_IMAGE_SIZE = Inr r" "parseDataUrl r = Inr img"
    note e = add_success [OF ok, of now_id now_created p t prev]
    have "length prev = MAX_HISTORY_ITEMS \<longrightarrow>
              handleAddToHistory b now_id now_created url p t prev
                = newHistoryItem t now_id img p now_created # butlast prev
            \<and> length (handleAddToHistory b now_id now_created url p t prev) = MAX_HISTORY_ITEMS
            \<and> (\<forall>x\<in>set prev. createdAt (last prev) \<le> createdAt x)"
    proof
      assume l: "length prev = MAX_HISTORY_ITEMS"
      have "handleAddToHistory b now_id now_created url p t prev
                = newHistoryItem t now_id img p now_created # butlast prev"
        using e take_full [OF l] by simp
      moreover from this l
      have "length (handleAddToHistory b now_id now_created url p t prev) = MAX_HISTORY_ITEMS"
        by (simp add: MAX_HISTORY_ITEMS_def)
      moreover have "\<forall>x\<in>set prev. createdAt (last prev) \<le> createdAt x"
        using newest_first_last [OF assms(2)] by blast
      ultimately show "handleAddToHistory b now_id now_created url p t prev
                = newHistoryItem t now_id img p now_created # butlast prev
            \<and> length (handleAddToHistory b now_id now_created url p t prev) = MAX_HISTORY_ITEMS
            \<and> (\<forall>x\<in>set prev. createdAt (last prev) \<le> createdAt x)"
        by blast
    qed
    with e show "handleAddToHistory b now_id now_created url p t prev
            = take MAX_HISTORY_ITEMS (newHistoryItem t now_id img p now_created # prev)
        \<and> (length prev = MAX_HISTORY_ITEMS \<longrightarrow>
              handleAddToHistory b now_id now_created url p t prev
                = newHistoryItem t now_id img p now_created # butlast prev
            \<and> length (handleAddToHistory b now_id now_created url p t prev) = MAX_HISTORY_ITEMS
            \<and> (\<forall>x\<in>set prev. createdAt (last prev) \<le> createdAt x))"
      by blast
  qed
  have m: "MAX_HISTORY_ITEMS = 10" by (simp add: MAX_HISTORY_ITEMS_def)
  from add_length [OF assms(1)] add_newest_first [OF assms(2,3)]
    delete_inv(1) [OF assms(1)] delete_inv(2) [OF assms(2)]
    clear_inv(1) [OF assms(1)] clear_inv(2) [OF assms(2)] s m
  show ?thesis by blast
qed

theorem history_bounded_newest_first_witness:
  "length full_history \<le> MAX_HISTORY_ITEMS \<and> newest_first full_history
   \<and> list_all (\<lambda>x. createdAt x \<le> 11) full_history
   \<and> handleAddToHistory sample_browser 11 11 (lit ''data:image/png;base64,QUJD'')
        (lit ''a prompt'') Gen full_history
       = newHistoryItem Gen 11 sample_image (lit ''a prompt'') 11
           # map old_item [10, 9, 8, 7, 6, 5, 4, 3, 2]
   \<and> length (handleAddToHistory sample_browser 11 11 (lit ''data:image/png;base64,QUJD'')
        (lit ''a prompt'') Gen full_history) = 10"
proof -
  have h: "length full_history \<le> MAX_HISTORY_ITEMS" "newest_first full_history"
    "\<forall>x\<in>set full_history. createdAt x \<le> 11"
    by (simp_all add: full_history_def MAX_HISTORY_ITEMS_def newest_first_def old_item_def)
  have l: "length full_history = MAX_HISTORY_ITEMS"
    by (simp add: full_history_def MAX_HISTORY_ITEMS_def)
  have b: "butlast full_history = map old_item [10, 9, 8, 7, 6, 5, 4, 3, 2]"
    by (simp add: full_history_def)
  from history_bounded_newest_first [OF h, of sample_browser 11
      "lit ''data:image/png;base64,QUJD''" "lit ''a prompt''" Gen]
    sample_resize sample_parse l
  have "handleAddToHistory sample_browser 11 11 (lit ''data:image/png;base64,QUJD'')
        (lit ''a prompt'') Gen full_history
       = newHistoryItem Gen 11 sample_image (lit ''a prompt'') 11 # butlast full_history
    \<and> length (handleAddToHistory sample_browser 11 11 (lit ''data:image/png;base64,QUJD'')
        (lit ''a prompt'') Gen full_history) = MAX_HISTORY_ITEMS"
    by blast
  with h b show ?thesis by (simp add: MAX_HISTORY_ITEMS_def list_all_iff)
qed

subsection \<open>Loading at startup\<close>

lemma load_array:
  assumes "st KEY = Some s" "s \<noteq> []" "parse s = Some (JArr xs)"
  shows "loadHistory parse st = (Some (take MAX_HISTORY_ITEMS xs), st)"
  using assms by (simp add: loadHistory_def truthy_def)

lemma load_unparseable:
  assumes "st KEY = Some s" "s \<noteq> []" "parse s = None"
  shows "loadHistory parse st = (None, st(KEY := None))"
  using assms by (simp add: loadHistory_def truthy_def)

lemma load_non_array:
  assumes "st KEY = Some s" "s \<noteq> []" "parse s = Some v" "\<not> isArray v"
  shows "loadHistory parse st = (None, st)"
  using assms by (cases v) (simp_all add: loadHistory_def truthy_def)

lemma load_empty_text:
  assumes "st KEY = Some []"
  shows "loadHistory parse st = (None, st)"
  using assms by (simp add: loadHistory_def truthy_def)

lemma mount_nothing_loaded:
  assumes "loadHistory parse st = (None, st')" "st' = st \<or> st' = st(KEY := None)"
  shows "mount parse stringify accepts st = ([], st(KEY := None))"
  using assms by (auto simp: mount_def saveHistory_def)

lemma parse_table_values:
  "parse_table (lit ''{}'') = Some (JObj [])"
  "parse_table (lit ''{oops'') = None"
  "parse_table (lit ''[0,1,2,3,4,5,6,7,8,9,10]'')
     = Some (JArr [JNum (Fin 0), JNum (Fin 1), JNum (Fin 2), JNum (Fin 3), JNum (Fin 4),
                   JNum (Fin 5), JNum (Fin 6), JNum (Fin 7), JNum (Fin 8), JNum (Fin 9),
                   JNum (Fin 10)])"
  "lit ''{}'' \<noteq> []" "lit ''{oops'' \<noteq> []" "lit ''[0,1,2,3,4,5,6,7,8,9,10]'' \<noteq> []"
  by (simp_all add: parse_table_def lit_def)

text \<open>
  C9. A stored text that parses to an array becomes the history cut to its first ten
  entries, by the load effect and so after mounting: the history has at most ten entries,
  and exactly ten when the stored array has more.
\<close>

theorem load_truncates:
  assumes "st KEY = Some s" and "s \<noteq> []" and "parse s = Some (JArr xs)"
  shows "loadHistory parse st = (Some (take MAX_HISTORY_ITEMS xs), st)
    \<and> fst (mount parse stringify accepts st) = take 10 xs
    \<and> length (fst (mount parse stringify accepts st)) \<le> 10
    \<and> (10 < length xs \<longrightarrow> length (fst (mount parse stringify accepts st)) = 10)"
proof -
  have l: "loadHistory parse st = (Some (take MAX_HISTORY_ITEMS xs), st)"
    using assms by (rule load_array [where st = st and s = s and parse = parse and xs = xs])
  have m: "fst (mount parse stringify accepts st) = take 10 xs"
    by (simp add: mount_def l MAX_HISTORY_ITEMS_def)
  from l m show ?thesis by simp
qed

theorem load_truncates_witness:
  "[KEY \<mapsto> lit ''[0,1,2,3,4,5,6,7,8,9,10]''] KEY = Some (lit ''[0,1,2,3,4,5,6,7,8,9,10]'')
   \<and> lit ''[0,1,2,3,4,5,6,7,8,9,10]'' \<noteq> []
   \<and> parse_table (lit ''[0,1,2,3,4,5,6,7,8,9,10]'')
       = Some (JArr [JNum (Fin 0), JNum (Fin 1), JNum (Fin 2), JNum (Fin 3), JNum (Fin 4),
                     JNum (Fin 5), JNum (Fin 6), JNum (Fin 7), JNum (Fin 8), JNum (Fin 9),
                     JNum (Fin 10)])
   \<and> fst (mount parse_table (\<lambda>h. lit ''saved'') (\<lambda>s. True)
            [KEY \<mapsto> lit ''[0,1,2,3,4,5,6,7,8,9,10]''])
       = [JNum (Fin 0), JNum (Fin 1), JNum (Fin 2), JNum (Fin 3), JNum (Fin 4),
          JNum (Fin 5), JNum (Fin 6), JNum (Fin 7), JNum (Fin 8), JNum (Fin 9)]"
proof -
  have h: "[KEY \<mapsto> lit ''[0,1,2,3,4,5,6,7,8,9,10]''] KEY
             = Some (lit ''[0,1,2,3,4,5,6,7,8,9,10]'')"
    "lit ''[0,1,2,3,4,5,6,7,8,9,10]'' \<noteq> []"
    "parse_table (lit ''[0,1,2,3,4,5,6,7,8,9,10]'')
       = Some (JArr [JNum (Fin 0), JNum (Fin 1), JNum (Fin 2), JNum (Fin 3), JNum (Fin 4),
                     JNum (Fin 5), JNum (Fin 6), JNum (Fin 7), JNum (Fin 8), JNum (Fin 9),
                     JNum (Fin 10)])"
    using parse_table_values by simp_all
  from load_truncates [where st = "[KEY \<mapsto> lit ''[0,1,2,3,4,5,6,7,8,9,10]'']"
      and s = "lit ''[0,1,2,3,4,5,6,7,8,9,10]''" and parse = parse_table
      and stringify = "\<lambda>h. lit ''saved''" and accepts = "\<lambda>s. True", OF h]
  have "fst (mount parse_table (\<lambda>h. lit ''saved'') (\<lambda>s. True)
            [KEY \<mapsto> lit ''[0,1,2,3,4,5,6,7,8,9,10]''])
       = take 10 [JNum (Fin 0), JNum (Fin 1), JNum (Fin 2), JNum (Fin 3), JNum (Fin 4),
                     JNum (Fin 5), JNum (Fin 6), JNum (Fin 7), JNum (Fin 8), JNum (Fin 9),
                     JNum (Fin 10)]"
    by blast
  with h show ?thesis by simp
qed

text \<open>
  C2 as stated fails for the load effect: on the stored text \<open>{}\<close>, which is JSON and not
  an array, it calls neither \<open>setHistory\<close> nor \<open>removeItem\<close>, and the key is still
  there when it returns.
\<close>

theorem load_keeps_non_array:
  "parse_table (lit ''{}'') = Some (JObj []) \<and> \<not> isArray (JObj [])
   \<and> loadHistory parse_table [KEY \<mapsto> lit ''{}''] = (None, [KEY \<mapsto> lit ''{}''])
   \<and> snd (loadHistory parse_table [KEY \<mapsto> lit ''{}'']) KEY = Some (lit ''{}'')"
  using parse_table_values by (simp add: loadHistory_def truthy_def)

text \<open>
  C2 as amended. With a stored text that does not parse, the load effect leaves the
  history empty and deletes the key. With a stored text that parses to something other
  than an array, or with the empty text, the load effect leaves the history empty and the
  storage as it is. In all three cases the history is empty after mounting and the key is
  gone: the save effect, run on the empty history of the first render, removes it.
\<close>

theorem load_discards_corrupt:
  assumes "st KEY = Some s"
  shows "(s \<noteq> [] \<and> parse s = None \<longrightarrow> loadHistory parse st = (None, st(KEY := None)))
    \<and> (s \<noteq> [] \<and> (\<exists>v. parse s = Some v \<and> \<not> isArray v) \<longrightarrow> loadHistory parse st = (None, st))
    \<and> (s = [] \<longrightarrow> loadHistory parse st = (None, st))
    \<and> (s = [] \<or> parse s = None \<or> (\<exists>v. parse s = Some v \<and> \<not> isArray v) \<longrightarrow>
          mount parse stringify accepts st = ([], st(KEY := None)))"
proof -
  have a: "s \<noteq> [] \<and> parse s = None \<longrightarrow> loadHistory parse st = (None, st(KEY := None))"
    using assms load_unparseable [where st = st and s = s and parse = parse] by blast
  have b: "s \<noteq> [] \<and> (\<exists>v. parse s = Some v \<and> \<not> isArray v) \<longrightarrow> loadHistory parse st = (None, st)"
    using assms load_non_array [where st = st and s = s and parse = parse] by blast
  have c: "s = [] \<longrightarrow> loadHistory parse st = (None, st)"
    using load_empty_text [of st parse] assms by blast
  have d: "s = [] \<or> parse s = None \<or> (\<exists>v. parse s = Some v \<and> \<not> isArray v) \<longrightarrow>
          mount parse stringify accepts st = ([], st(KEY := None))"
  proof (cases "s = []")
    case True
    with c mount_nothing_loaded [of parse st st stringify accepts] show ?thesis by blast
  next
    case False
    with a b mount_nothing_loaded [of parse st st stringify accepts]
      mount_nothing_loaded [of parse st "st(KEY := None)" stringify accepts]
    show ?thesis by blast
  qed
  from a b c d show ?thesis by blast
qed

theorem load_discards_corrupt_witness:
  "[KEY \<mapsto> lit ''{}''] KEY = Some (lit ''{}'')
   \<and> mount parse_table (\<lambda>h. lit ''saved'') (\<lambda>s. True) [KEY \<mapsto> lit ''{}''] = ([], Map.empty)
   \<and> [KEY \<mapsto> lit ''{oops''] KEY = Some (lit ''{oops'')
   \<and> loadHistory parse_table [KEY \<mapsto> lit ''{oops''] = (None, Map.empty)
   \<and> mount parse_table (\<lambda>h. lit ''saved'') (\<lambda>s. True) [KEY \<mapsto> lit ''{oops'']
       = ([], Map.empty)"
proof -
  have h1: "[KEY \<mapsto> lit ''{}''] KEY = Some (lit ''{}'')" by simp
  have h2: "[KEY \<mapsto> lit ''{oops''] KEY = Some (lit ''{oops'')" by simp
  have p1: "parse_table (lit ''{}'') = Some (JObj [])" "\<not> isArray (JObj [])"
    using parse_table_values by simp_all
  have p2: "parse_table (lit ''{oops'') = None" "lit ''{oops'' \<noteq> []"
    using parse_table_values by simp_all
  from load_discards_corrupt [where st = "[KEY \<mapsto> lit ''{}'']" and s = "lit ''{}''"
      and parse = parse_table and stringify = "\<lambda>h. lit ''saved''" and accepts = "\<lambda>s. True",
      OF h1] p1
  have a: "mount parse_table (\<lambda>h. lit ''saved'') (\<lambda>s. True) [KEY \<mapsto> lit ''{}'']
             = ([], Map.empty)"
    by auto
  from load_discards_corrupt [where st = "[KEY \<mapsto> lit ''{oops'']" and s = "lit ''{oops''"
      and parse = parse_table and stringify = "\<lambda>h. lit ''saved''" and accepts = "\<lambda>s. True",
      OF h2] p2
  have b: "loadHistory parse_table [KEY \<mapsto> lit ''{oops''] = (None, Map.empty)"
    "mount parse_table (\<lambda>h. lit ''saved'') (\<lambda>s. True) [KEY \<mapsto> lit ''{oops'']
       = ([], Map.empty)"
    by auto
  from h1 h2 a b show ?thesis by blast
qed

end
